(* ===== verification/Prelude.thy ===== *)
theory Prelude
  imports Main "HOL-Library.Sublist" "HOL-Library.Multiset"
begin

text \<open>
  Shared vocabulary of the development: the error values that model JavaScript
  exceptions, the type names of the model, the collections of rewrite rules the
  component theories fill, and generic lemmas on lists and strings that several
  components use (first success of a concatenated list of alternatives, substring
  occurrence through \<open>take\<close>/\<open>drop\<close>).
\<close>

named_theorems js_simps "evaluation rules of the JavaScript runtime model"
named_theorems re_simps "evaluation rules of the regular expression matcher"

text \<open>
  An uncaught JavaScript exception. The only one the modelled code can raise is a
  \<open>TypeError\<close> (reading a property of \<open>null\<close> or \<open>undefined\<close>); its message is kept
  as the engine prints it.
\<close>

datatype js_error = TypeError string

type_synonym 'a js_result = "js_error + 'a"

text \<open>A file-system path as webpack hands it over (\<open>module.context\<close>).\<close>

type_synonym path = string

subsection \<open>Lists of alternatives\<close>

text \<open>
  Backtracking search is modelled as the list of all successes in priority order;
  the first success of a sequence is the first element of a concatenation.
\<close>

lemma concat_map_eq_Nil_iff [simp]:
  "concat (map f xs) = [] \<longleftrightarrow> (\<forall>x\<in>set xs. f x = [])"
  by (induction xs) auto

lemma concat_map_Cons_hd:
  "f x \<noteq> [] \<Longrightarrow> \<exists>ys. concat (map f (x # xs)) = hd (f x) # ys"
  by (cases "f x") auto

lemma concat_map_skip:
  "\<forall>x\<in>set pre. f x = [] \<Longrightarrow> concat (map f (pre @ xs)) = concat (map f xs)"
  by (induction pre) auto

subsection \<open>Substrings\<close>

lemma take_drop_eq_imp_sublist:
  "take (length w) (drop i s) = w \<Longrightarrow> sublist w s"
  unfolding sublist_def by (metis append_take_drop_id)

lemma sublist_imp_take_drop:
  assumes "sublist w s"
  shows "\<exists>i\<le>length s. take (length w) (drop i s) = w"
proof -
  from assms obtain p q where s: "s = p @ w @ q" by (auto simp: sublist_def)
  then have "take (length w) (drop (length p) s) = w" by simp
  moreover have "length p \<le> length s" using s by simp
  ultimately show ?thesis by blast
qed

lemma sublist_iff_take_drop:
  "sublist w s \<longleftrightarrow> (\<exists>i\<le>length s. take (length w) (drop i s) = w)"
  using sublist_imp_take_drop take_drop_eq_imp_sublist by blast

lemma prefix_iff_take:
  "prefix w s \<longleftrightarrow> take (length w) s = w"
proof
  assume "prefix w s"
  then obtain q where "s = w @ q" by (auto simp: prefix_def)
  then show "take (length w) s = w" by simp
next
  assume "take (length w) s = w"
  then show "prefix w s" by (metis take_is_prefix)
qed

lemma suffix_iff_drop:
  "suffix w s \<longleftrightarrow> length w \<le> length s \<and> drop (length s - length w) s = w"
proof
  assume "suffix w s"
  then obtain p where "s = p @ w" by (auto simp: suffix_def)
  then show "length w \<le> length s \<and> drop (length s - length w) s = w" by simp
next
  assume h: "length w \<le> length s \<and> drop (length s - length w) s = w"
  then have "s = take (length s - length w) s @ w" by (metis append_take_drop_id)
  then show "suffix w s" by (metis suffix_def)
qed

lemma find_Some_imp: "find P xs = Some x \<Longrightarrow> P x"
  by (induction xs) (auto split: if_splits)

lemma find_append_eq:
  "find P (xs @ ys) = (case find P xs of None \<Rightarrow> find P ys | Some x \<Rightarrow> Some x)"
  by (induction xs) auto

lemma length_filter_sorted_wrt:
  assumes "sorted_wrt (\<lambda>x y. \<not> (P x \<and> P y)) xs"
  shows "length (filter P xs) \<le> 1"
  using assms
proof (induction xs)
  case (Cons x xs)
  show ?case
  proof (cases "P x")
    case True
    with Cons.prems have "filter P xs = []" by (auto simp: filter_empty_conv)
    then show ?thesis by simp
  next
    case False
    with Cons show ?thesis by simp
  qed
qed simp

end
