(* ===== verification/JsRuntime.thy ===== *)
theory JsRuntime
  imports Prelude
begin

text \<open>
  The ECMAScript built-ins the configuration calls and whose behaviour its
  correctness depends on, modelled from the language specification (they are not
  code of the repository): \<open>String.prototype.split\<close> with a one-character
  separator, \<open>Array.prototype.indexOf\<close>, the truthiness test of an \<open>if\<close> on a
  string-or-undefined value, and \<open>Array.prototype.sort\<close> with a user comparator
  (as a stable insertion sort, which every conforming engine agrees with when the
  comparator is consistent). The lemmas give \<open>split\<close> its join round trip,
  \<open>indexOf\<close> its bounds and meaning, and prove that sorting with a comparator that
  subtracts two integer keys is \<open>sort_key\<close> on that key.
\<close>

subsection \<open>String.prototype.split\<close>

fun js_split :: "char \<Rightarrow> string \<Rightarrow> string list" where
  "js_split d [] = [[]]"
| "js_split d (x # xs) =
     (let ws = js_split d xs in if x = d then [] # ws else (x # hd ws) # tl ws)"

text \<open>\<open>Array.prototype.join\<close>, the inverse of \<open>split\<close>.\<close>

fun js_join :: "char \<Rightarrow> string list \<Rightarrow> string" where
  "js_join d [] = []"
| "js_join d [w] = w"
| "js_join d (w # ws) = w @ d # js_join d ws"

subsection \<open>Array.prototype.indexOf\<close>

fun js_index_of :: "'a list \<Rightarrow> 'a \<Rightarrow> int" where
  "js_index_of [] x = -1"
| "js_index_of (y # ys) x =
     (if y = x then 0 else (let i = js_index_of ys x in if i < 0 then -1 else i + 1))"

subsection \<open>Truthiness\<close>

text \<open>
  A rule of the chunk table returns a string or \<open>undefined\<close> (modelled as
  \<open>None\<close>); \<open>if (filename)\<close> takes the branch for a non-empty string only.
\<close>

definition js_truthy_str :: "string option \<Rightarrow> bool" where
  "js_truthy_str v = (case v of None \<Rightarrow> False | Some s \<Rightarrow> s \<noteq> [])"

text \<open>\<open>String(v)\<close> of a string-or-undefined value, as a regular expression test coerces it.\<close>

definition js_to_string :: "string option \<Rightarrow> string" where
  "js_to_string v = (case v of None \<Rightarrow> ''undefined'' | Some s \<Rightarrow> s)"

subsection \<open>Array.prototype.sort with a comparator\<close>

text \<open>
  Each element is inserted after every element already placed that the comparator
  does not put after it; an exception thrown by the comparator aborts the sort.
\<close>

type_synonym 'a js_comparator = "'a \<Rightarrow> 'a \<Rightarrow> int js_result"

fun js_insort :: "'a js_comparator \<Rightarrow> 'a \<Rightarrow> 'a list \<Rightarrow> 'a list js_result" where
  "js_insort cmp x [] = Inr [x]"
| "js_insort cmp x (y # ys) =
     (case cmp y x of
        Inl e \<Rightarrow> Inl e
      | Inr r \<Rightarrow> if 0 < r then Inr (x # y # ys)
                 else (case js_insort cmp x ys of Inl e \<Rightarrow> Inl e | Inr zs \<Rightarrow> Inr (y # zs)))"

fun js_sort_acc :: "'a js_comparator \<Rightarrow> 'a list \<Rightarrow> 'a list \<Rightarrow> 'a list js_result" where
  "js_sort_acc cmp acc [] = Inr acc"
| "js_sort_acc cmp acc (x # xs) =
     (case js_insort cmp x acc of Inl e \<Rightarrow> Inl e | Inr acc' \<Rightarrow> js_sort_acc cmp acc' xs)"

definition js_sort :: "'a js_comparator \<Rightarrow> 'a list \<Rightarrow> 'a list js_result" where
  "js_sort cmp xs = js_sort_acc cmp [] xs"

text \<open>Insertion for a comparator that subtracts integer keys, as a pure function.\<close>

fun ins_after :: "('a \<Rightarrow> int) \<Rightarrow> 'a \<Rightarrow> 'a list \<Rightarrow> 'a list" where
  "ins_after k x [] = [x]"
| "ins_after k x (y # ys) = (if k x < k y then x # y # ys else y # ins_after k x ys)"

definition key_comparator_on :: "'a set \<Rightarrow> ('a \<Rightarrow> int) \<Rightarrow> 'a js_comparator \<Rightarrow> bool" where
  "key_comparator_on A k cmp \<longleftrightarrow> (\<forall>a\<in>A. \<forall>b\<in>A. cmp a b = Inr (k a - k b))"

subsection \<open>Properties of split and join\<close>

lemma js_split_not_Nil [simp]: "js_split d s \<noteq> []"
  by (induction s) (auto simp: Let_def)

lemma hd_js_split [simp]: "hd (js_split d s) = takeWhile (\<lambda>c. c \<noteq> d) s"
  by (induction s) (auto simp: Let_def)

lemma js_split_pieces: "w \<in> set (js_split d s) \<Longrightarrow> d \<notin> set w"
proof (induction s arbitrary: w)
  case Nil
  then show ?case by simp
next
  case (Cons x xs)
  obtain v vs where vs: "js_split d xs = v # vs"
    using js_split_not_Nil by (metis list.exhaust)
  with Cons show ?case by (auto simp: Let_def split: if_splits)
qed

lemma js_join_split: "js_join d (js_split d s) = s"
proof (induction s)
  case Nil
  then show ?case by simp
next
  case (Cons x xs)
  obtain v vs where vs: "js_split d xs = v # vs"
    using js_split_not_Nil by (metis list.exhaust)
  show ?case
  proof (cases vs)
    case Nil
    with Cons vs show ?thesis by (simp add: Let_def)
  next
    case (Cons w ws)
    with Cons.IH vs show ?thesis by (auto simp: Let_def)
  qed
qed

lemma js_split_append_sep:
  "d \<notin> set v \<Longrightarrow> js_split d (v @ d # s) = v # js_split d s"
  by (induction v) (auto simp: Let_def)

lemma js_split_no_sep: "d \<notin> set v \<Longrightarrow> js_split d v = [v]"
  by (induction v) (auto simp: Let_def)

lemma js_split_join:
  "ws \<noteq> [] \<Longrightarrow> \<forall>w\<in>set ws. d \<notin> set w \<Longrightarrow> js_split d (js_join d ws) = ws"
proof (induction ws rule: induct_list012)
  case (2 w)
  then show ?case by (simp add: js_split_no_sep)
next
  case (3 v w ws)
  then show ?case by (simp add: js_split_append_sep)
qed simp

subsection \<open>Properties of indexOf\<close>

lemma js_index_of_bounds: "-1 \<le> js_index_of xs x \<and> js_index_of xs x < int (length xs)"
  by (induction xs) (auto simp: Let_def)

lemma js_index_of_neg_iff: "js_index_of xs x < 0 \<longleftrightarrow> x \<notin> set xs"
  by (induction xs) (auto simp: Let_def)

lemma js_index_of_absent: "x \<notin> set xs \<Longrightarrow> js_index_of xs x = -1"
  by (induction xs) (auto simp: Let_def)

lemma js_index_of_first:
  "x \<in> set xs \<Longrightarrow>
     xs ! nat (js_index_of xs x) = x \<and> (\<forall>j < nat (js_index_of xs x). xs ! j \<noteq> x)"
proof (induction xs)
  case Nil
  then show ?case by simp
next
  case (Cons y ys)
  show ?case
  proof (cases "y = x")
    case True
    then show ?thesis by simp
  next
    case False
    with Cons.prems have x: "x \<in> set ys" by simp
    then have nn: "0 \<le> js_index_of ys x" using js_index_of_neg_iff by (metis not_less)
    have eq: "nat (js_index_of (y # ys) x) = Suc (nat (js_index_of ys x))"
      using False nn by (simp add: Let_def nat_add_distrib)
    show ?thesis
    proof (intro conjI allI impI)
      show "(y # ys) ! nat (js_index_of (y # ys) x) = x"
        using eq Cons.IH x by simp
    next
      fix j assume "j < nat (js_index_of (y # ys) x)"
      with eq Cons.IH x False show "(y # ys) ! j \<noteq> x"
        by (cases j) auto
    qed
  qed
qed

subsection \<open>Truthiness and string conversion\<close>

lemma js_truthy_str_simps [simp, js_simps]:
  "js_truthy_str None = False"
  "js_truthy_str (Some s) = (s \<noteq> [])"
  by (simp_all add: js_truthy_str_def)

lemma js_to_string_simps [simp, js_simps]:
  "js_to_string None = ''undefined''"
  "js_to_string (Some s) = s"
  by (simp_all add: js_to_string_def)

subsection \<open>Sorting with a key comparator\<close>

lemma js_insort_key:
  "key_comparator_on A k cmp \<Longrightarrow> x \<in> A \<Longrightarrow> set ys \<subseteq> A \<Longrightarrow>
     js_insort cmp x ys = Inr (ins_after k x ys)"
  by (induction ys) (auto simp: key_comparator_on_def)

lemma mset_ins_after [simp]: "mset (ins_after k x ys) = add_mset x (mset ys)"
  by (induction ys) auto

lemma set_ins_after [simp]: "set (ins_after k x ys) = insert x (set ys)"
  by (induction ys) auto

lemma sorted_ins_after:
  "sorted (map k ys) \<Longrightarrow> sorted (map k (ins_after k x ys))"
  by (induction ys) auto

lemma filter_key_ins_after:
  assumes "sorted (map k ys)"
  shows "filter (\<lambda>y. c = k y) (ins_after k x ys) =
         filter (\<lambda>y. c = k y) ys @ filter (\<lambda>y. c = k y) [x]"
  using assms
proof (induction ys)
  case Nil
  then show ?case by simp
next
  case (Cons y ys)
  show ?case
  proof (cases "k x < k y")
    case True
    with Cons.prems have "\<forall>z\<in>set (y # ys). k x < k z" by auto
    then have "c = k x \<Longrightarrow> filter (\<lambda>z. c = k z) (y # ys) = []" by (auto simp: filter_empty_conv)
    with True show ?thesis by auto
  next
    case False
    with Cons show ?thesis by auto
  qed
qed

lemma js_sort_acc_key:
  assumes "key_comparator_on A k cmp" and "sorted (map k acc)"
    and "set acc \<subseteq> A" and "set xs \<subseteq> A"
  shows "\<exists>ys. js_sort_acc cmp acc xs = Inr ys \<and> mset ys = mset acc + mset xs \<and>
           sorted (map k ys) \<and>
           (\<forall>c. filter (\<lambda>y. c = k y) ys = filter (\<lambda>y. c = k y) (acc @ xs))"
  using assms(2-)
proof (induction xs arbitrary: acc)
  case Nil
  then show ?case by simp
next
  case (Cons x xs)
  let ?acc' = "ins_after k x acc"
  have s: "sorted (map k ?acc')" using Cons.prems(1) by (rule sorted_ins_after)
  have f: "filter (\<lambda>y. c = k y) ?acc' = filter (\<lambda>y. c = k y) (acc @ [x])" for c
    using filter_key_ins_after [OF Cons.prems(1)] by simp
  have a: "set ?acc' \<subseteq> A" "set xs \<subseteq> A" using Cons.prems(2,3) by auto
  from Cons.IH [OF s a] obtain ys where
    ys: "js_sort_acc cmp ?acc' xs = Inr ys" "mset ys = mset ?acc' + mset xs"
        "sorted (map k ys)" "\<forall>c. filter (\<lambda>y. c = k y) ys = filter (\<lambda>y. c = k y) (?acc' @ xs)"
    by blast
  have "js_sort_acc cmp acc (x # xs) = Inr ys"
    using ys(1) js_insort_key [OF assms(1)] Cons.prems(2,3) by simp
  moreover have "filter (\<lambda>y. c = k y) ys = filter (\<lambda>y. c = k y) (acc @ x # xs)" for c
    using ys(4) f by simp
  ultimately show ?case using ys(2,3) by auto
qed

text \<open>
  Sorting with a comparator that returns the difference of two integer keys is the
  library's stable \<open>sort_key\<close> on that key.
\<close>

theorem js_sort_key_comparator:
  assumes "key_comparator_on (set xs) k cmp"
  shows "js_sort cmp xs = Inr (sort_key k xs)"
proof -
  obtain ys where ys: "js_sort_acc cmp [] xs = Inr ys" "mset ys = mset xs"
      "sorted (map k ys)" "\<forall>c. filter (\<lambda>y. c = k y) ys = filter (\<lambda>y. c = k y) xs"
    using js_sort_acc_key [OF assms, of "[]" xs] by auto
  have "sort_key k xs = ys"
    by (rule properties_for_sort_key) (use ys in auto)
  then show ?thesis using ys(1) by (simp add: js_sort_def)
qed

end
