(* ===== verification/JsRegex.thy ===== *)
theory JsRegex
  imports Prelude
begin

text \<open>
  The fragment of ECMAScript regular expressions that \<open>src/index.js\<close> writes:
  literals, the classes \<open>[\\/]\<close> and \<open>.\<close>, the anchors \<open>^\<close> and \<open>$\<close> (no
  multiline flag), alternation, sequencing, capturing groups, the greedy option
  \<open>?\<close> and the lazy star \<open>*?\<close> over a class. The matcher \<open>mt\<close> returns every way
  the pattern matches at a position, as end position and captures, in the order in
  which the backtracking matcher of the language specification tries them; so the
  first element is the one \<open>RegExp.prototype.exec\<close> reports. \<open>js_exec\<close> tries the
  start positions from 0 upwards (\<open>lastIndex\<close> 0, neither global nor sticky),
  \<open>js_test\<close> is \<open>RegExp.prototype.test\<close>, and \<open>js_group\<close> reads \<open>match[n]\<close>.
  Characters are the bytes of \<open>char\<close>: the line terminators that \<open>.\<close> refuses are
  LF and CR (U+2028 and U+2029 are not single bytes and are not modelled).
  The lemmas give each constructor its meaning for \<open>test\<close>: an alternation tests
  as the disjunction, a literal as substring occurrence, an anchored literal as a
  prefix, a literal before \<open>$\<close> as a suffix. For patterns built only from literals,
  alternation, sequence, groups and \<open>?\<close>, \<open>lits\<close> lists the words they match; such a
  pattern before \<open>$\<close> tests as "one of its words is a suffix" (\<open>js_test_lits_Eol\<close>).
\<close>

datatype cclass = CharSet "char list" | AnyChar

fun cls_match :: "cclass \<Rightarrow> char \<Rightarrow> bool" where
  "cls_match (CharSet cs) x = (x \<in> set cs)"
| "cls_match AnyChar x = (x \<noteq> CHR 0x0A \<and> x \<noteq> CHR 0x0D)"

datatype regex =
    Lit string
  | Cls cclass
  | Bol
  | Eol
  | Alt regex regex
  | Seq regex regex
  | Group nat regex
  | Opt regex
  | LazyStar cclass

type_synonym captures = "nat \<Rightarrow> (nat \<times> nat) option"

text \<open>Positions reached by repeating a class from position \<open>i\<close>, shortest first.\<close>

fun cls_span :: "cclass \<Rightarrow> string \<Rightarrow> nat \<Rightarrow> nat list" where
  "cls_span cl [] i = [i]"
| "cls_span cl (x # xs) i = (if cls_match cl x then i # cls_span cl xs (Suc i) else [i])"

fun mt :: "regex \<Rightarrow> string \<Rightarrow> nat \<Rightarrow> captures \<Rightarrow> (nat \<times> captures) list" where
  "mt (Lit w) s i c = (if take (length w) (drop i s) = w then [(i + length w, c)] else [])"
| "mt (Cls cl) s i c = (if i < length s \<and> cls_match cl (s ! i) then [(Suc i, c)] else [])"
| "mt Bol s i c = (if i = 0 then [(i, c)] else [])"
| "mt Eol s i c = (if i = length s then [(i, c)] else [])"
| "mt (Alt r1 r2) s i c = mt r1 s i c @ mt r2 s i c"
| "mt (Seq r1 r2) s i c = concat (map (\<lambda>(j, c'). mt r2 s j c') (mt r1 s i c))"
| "mt (Group n r) s i c = map (\<lambda>(j, c'). (j, c'(n \<mapsto> (i, j)))) (mt r s i c)"
| "mt (Opt r) s i c = mt r s i c @ [(i, c)]"
| "mt (LazyStar cl) s i c = map (\<lambda>j. (j, c)) (cls_span cl (drop i s) i)"

record re_match =
  m_index :: nat
  m_end :: nat
  m_caps :: captures

fun exec_at :: "regex \<Rightarrow> string \<Rightarrow> nat list \<Rightarrow> re_match option" where
  "exec_at r s [] = None"
| "exec_at r s (i # is) =
     (case mt r s i Map.empty of
        [] \<Rightarrow> exec_at r s is
      | (j, c) # _ \<Rightarrow> Some \<lparr>m_index = i, m_end = j, m_caps = c\<rparr>)"

definition js_exec :: "regex \<Rightarrow> string \<Rightarrow> re_match option" where
  "js_exec r s = exec_at r s [0..<Suc (length s)]"

definition js_test :: "regex \<Rightarrow> string \<Rightarrow> bool" where
  "js_test r s \<longleftrightarrow> js_exec r s \<noteq> None"

definition substr :: "string \<Rightarrow> nat \<Rightarrow> nat \<Rightarrow> string" where
  "substr s a b = take (b - a) (drop a s)"

text \<open>\<open>match[n]\<close>: the whole match for 0, a group's text, or \<open>undefined\<close>.\<close>

definition js_group :: "string \<Rightarrow> re_match \<Rightarrow> nat \<Rightarrow> string option" where
  "js_group s m n =
     (if n = 0 then Some (substr s (m_index m) (m_end m))
      else (case m_caps m n of None \<Rightarrow> None | Some (a, b) \<Rightarrow> Some (substr s a b)))"

text \<open>
  The words a regular expression built from literals, alternation, sequence,
  groups and \<open>?\<close> matches, or \<open>None\<close> when it uses other constructs.
\<close>

fun lits :: "regex \<Rightarrow> string list option" where
  "lits (Lit w) = Some [w]"
| "lits (Alt r1 r2) = (case (lits r1, lits r2) of (Some a, Some b) \<Rightarrow> Some (a @ b) | _ \<Rightarrow> None)"
| "lits (Seq r1 r2) =
     (case (lits r1, lits r2) of (Some a, Some b) \<Rightarrow> Some (concat (map (\<lambda>u. map (\<lambda>v. u @ v) b) a)) | _ \<Rightarrow> None)"
| "lits (Group n r) = lits r"
| "lits (Opt r) = map_option (Cons []) (lits r)"
| "lits _ = None"

subsection \<open>Matching at a position\<close>

abbreviation matches_at :: "regex \<Rightarrow> string \<Rightarrow> nat \<Rightarrow> bool" where
  "matches_at r s i \<equiv> mt r s i Map.empty \<noteq> []"

subsection \<open>Evaluation rules\<close>

lemmas [re_simps] = mt.simps cls_span.simps cls_match.simps exec_at.simps

subsection \<open>Captures do not decide success\<close>

lemma map_fst_concat_map:
  assumes "\<And>j c. map fst (g (j, c)) = h j"
  shows "map fst (concat (map g L)) = concat (map h (map fst L))"
  by (induction L) (auto simp: assms)

lemma mt_fst_indep: "map fst (mt r s i c) = map fst (mt r s i c')"
proof (induction r arbitrary: i c c')
  case (Seq r1 r2)
  let ?h = "\<lambda>j. map fst (mt r2 s j Map.empty)"
  have step: "map fst ((\<lambda>(j, c'). mt r2 s j c') (j, d)) = ?h j" for j d
    using Seq.IH(2) [of j d Map.empty] by simp
  have "map fst (mt (Seq r1 r2) s i c) = concat (map ?h (map fst (mt r1 s i c)))"
    unfolding mt.simps by (rule map_fst_concat_map) (rule step)
  also have "\<dots> = concat (map ?h (map fst (mt r1 s i c')))"
    using Seq.IH(1) by metis
  also have "\<dots> = map fst (mt (Seq r1 r2) s i c')"
    unfolding mt.simps by (rule map_fst_concat_map [symmetric]) (rule step)
  finally show ?case .
next
  case (Group n r)
  have e: "fst \<circ> (\<lambda>(j, c'). (j, c'(n \<mapsto> (i, j)))) = (fst :: nat \<times> captures \<Rightarrow> nat)"
    by (auto simp: fun_eq_iff)
  show ?case by (simp only: mt.simps map_map e) (rule Group.IH)
next
  case (Alt r1 r2)
  show ?case using Alt.IH(1) [of i c c'] Alt.IH(2) [of i c c'] by simp
next
  case (Opt r)
  show ?case using Opt.IH [of i c c'] by simp
qed (auto simp: comp_def)

lemma mt_Nil_indep: "mt r s i c = [] \<longleftrightarrow> mt r s i c' = []"
  using mt_fst_indep [of r s i c c'] by (metis map_is_Nil_conv)

lemma mt_end_indep: "j \<in> fst ` set (mt r s i c) \<longleftrightarrow> j \<in> fst ` set (mt r s i c')"
  using mt_fst_indep [of r s i c c'] by (metis set_map)

subsection \<open>Matching positions stay in the string\<close>

lemma cls_span_bounds: "j \<in> set (cls_span cl xs i) \<Longrightarrow> i \<le> j \<and> j \<le> i + length xs"
proof (induction xs arbitrary: i)
  case (Cons x xs)
  show ?case
  proof (cases "j = i")
    case False
    with Cons.prems have "j \<in> set (cls_span cl xs (Suc i))" by (auto split: if_splits)
    with Cons.IH [of "Suc i"] show ?thesis by simp
  qed simp
qed simp

lemma mt_bounds:
  "(j, c') \<in> set (mt r s i c) \<Longrightarrow> i \<le> length s \<Longrightarrow> i \<le> j \<and> j \<le> length s"
proof (induction r arbitrary: i j c c')
  case (Lit w)
  then show ?case by (auto split: if_splits dest: arg_cong [where f = length])
next
  case (LazyStar cl)
  then show ?case by (auto dest: cls_span_bounds)
next
  case (Seq r1 r2)
  then show ?case by fastforce
qed (auto split: if_splits)

subsection \<open>Success of a test\<close>

lemma exec_at_None_iff: "exec_at r s is = None \<longleftrightarrow> (\<forall>i\<in>set is. \<not> matches_at r s i)"
  by (induction "is") (auto split: list.splits)

lemma js_test_iff: "js_test r s \<longleftrightarrow> (\<exists>i\<le>length s. matches_at r s i)"
proof -
  have "set [0..<Suc (length s)] = {i. i \<le> length s}" by auto
  then show ?thesis by (auto simp: js_test_def js_exec_def exec_at_None_iff)
qed

lemma matches_at_Alt: "matches_at (Alt r1 r2) s i \<longleftrightarrow> matches_at r1 s i \<or> matches_at r2 s i"
  by simp

lemma matches_at_Lit: "matches_at (Lit w) s i \<longleftrightarrow> take (length w) (drop i s) = w"
  by simp

lemma matches_at_Seq:
  "matches_at (Seq r1 r2) s i \<longleftrightarrow> (\<exists>j\<in>fst ` set (mt r1 s i Map.empty). matches_at r2 s j)"
proof -
  let ?L = "mt r1 s i Map.empty"
  have "matches_at (Seq r1 r2) s i \<longleftrightarrow> (\<exists>x\<in>set ?L. mt r2 s (fst x) (snd x) \<noteq> [])"
    by (simp add: case_prod_beta)
  also have "\<dots> \<longleftrightarrow> (\<exists>j\<in>fst ` set ?L. matches_at r2 s j)"
  proof
    assume "\<exists>x\<in>set ?L. mt r2 s (fst x) (snd x) \<noteq> []"
    then obtain j d where "(j, d) \<in> set ?L" "mt r2 s j d \<noteq> []" by auto
    then show "\<exists>j\<in>fst ` set ?L. matches_at r2 s j"
      using mt_Nil_indep [of r2 s j d Map.empty] by force
  next
    assume "\<exists>j\<in>fst ` set ?L. matches_at r2 s j"
    then obtain j d where "(j, d) \<in> set ?L" "matches_at r2 s j" by auto
    then show "\<exists>x\<in>set ?L. mt r2 s (fst x) (snd x) \<noteq> []"
      using mt_Nil_indep [of r2 s j d Map.empty] by force
  qed
  finally show ?thesis .
qed

theorem js_test_Alt: "js_test (Alt r1 r2) s \<longleftrightarrow> js_test r1 s \<or> js_test r2 s"
  by (auto simp: js_test_iff)

theorem js_test_Lit: "js_test (Lit w) s \<longleftrightarrow> sublist w s"
proof -
  have "matches_at (Lit w) s i \<longleftrightarrow> take (length w) (drop i s) = w" for i
    by (rule matches_at_Lit)
  then show ?thesis by (simp add: js_test_iff sublist_iff_take_drop)
qed

theorem js_test_Bol_Lit: "js_test (Seq Bol (Lit w)) s \<longleftrightarrow> prefix w s"
proof -
  have "matches_at (Seq Bol (Lit w)) s i \<longleftrightarrow> i = 0 \<and> take (length w) s = w" for i
    by auto
  then show ?thesis by (auto simp: js_test_iff prefix_iff_take)
qed

lemma matches_at_Lit_Eol:
  "matches_at (Seq (Lit w) Eol) s i \<longleftrightarrow> take (length w) (drop i s) = w \<and> i + length w = length s"
  by simp

theorem js_test_Lit_Eol: "js_test (Seq (Lit w) Eol) s \<longleftrightarrow> suffix w s"
proof
  assume "js_test (Seq (Lit w) Eol) s"
  then obtain i where "matches_at (Seq (Lit w) Eol) s i"
    by (auto simp: js_test_iff)
  then have "take (length w) (drop i s) = w" "i + length w = length s"
    by (simp_all only: matches_at_Lit_Eol)
  then have "drop (length s - length w) s = w" "length w \<le> length s" by auto
  then show "suffix w s" by (simp add: suffix_iff_drop)
next
  assume "suffix w s"
  then have "length w \<le> length s" "drop (length s - length w) s = w"
    by (simp_all add: suffix_iff_drop)
  then have "matches_at (Seq (Lit w) Eol) s (length s - length w)"
    by (simp only: matches_at_Lit_Eol) simp
  then show "js_test (Seq (Lit w) Eol) s"
    unfolding js_test_iff by (meson diff_le_self)
qed

subsection \<open>Anchored literal sets\<close>

lemma take_drop_append_iff:
  "take (length (u @ v)) (drop i s) = u @ v \<longleftrightarrow>
     take (length u) (drop i s) = u \<and> take (length v) (drop (i + length u) s) = v"
proof -
  define x where "x = drop i s"
  have dx: "drop (i + length u) s = drop (length u) x" by (simp add: x_def add.commute)
  have sp: "take (length (u @ v)) x = take (length u) x @ take (length v) (drop (length u) x)"
    by (simp add: take_add)
  show ?thesis
  proof (cases "length u \<le> length x")
    case True
    then have "length (take (length u) x) = length u" by simp
    then show ?thesis unfolding x_def [symmetric] dx sp by simp
  next
    case False
    then have "length (take (length (u @ v)) x) \<noteq> length (u @ v)"
      "length (take (length u) x) \<noteq> length u" by simp_all
    then have "take (length (u @ v)) x \<noteq> u @ v" "take (length u) x \<noteq> u" by auto
    then show ?thesis unfolding x_def [symmetric] by blast
  qed
qed

lemma mt_ends_indep: "fst ` set (mt r s i c) = fst ` set (mt r s i c')"
  using mt_fst_indep [of r s i c c'] by (simp only: set_map [symmetric])

lemma ends_Seq:
  "fst ` set (mt (Seq r1 r2) s i c) = (\<Union>j\<in>fst ` set (mt r1 s i c). fst ` set (mt r2 s j Map.empty))"
proof -
  have "fst ` set (mt (Seq r1 r2) s i c) = (\<Union>x\<in>set (mt r1 s i c). fst ` set (mt r2 s (fst x) (snd x)))"
    by (simp add: case_prod_beta image_UN)
  also have "\<dots> = (\<Union>x\<in>set (mt r1 s i c). fst ` set (mt r2 s (fst x) Map.empty))"
    by (rule SUP_cong [OF refl mt_ends_indep])
  finally show ?thesis by (simp add: image_image)
qed

lemma lits_ends:
  "lits r = Some ws \<Longrightarrow>
     fst ` set (mt r s i c) = {i + length w | w. w \<in> set ws \<and> take (length w) (drop i s) = w}"
proof (induction r arbitrary: ws i c)
  case (Seq r1 r2)
  then obtain a b where a: "lits r1 = Some a" and b: "lits r2 = Some b"
    and ws: "ws = concat (map (\<lambda>u. map (\<lambda>v. u @ v) b) a)"
    by (auto split: option.splits)
  have "fst ` set (mt (Seq r1 r2) s i c) =
          (\<Union>j\<in>{i + length w | w. w \<in> set a \<and> take (length w) (drop i s) = w}.
             {j + length w | w. w \<in> set b \<and> take (length w) (drop j s) = w})"
    by (simp only: ends_Seq Seq.IH(1) [OF a] Seq.IH(2) [OF b])
  also have "\<dots> = {i + length w | w. w \<in> set ws \<and> take (length w) (drop i s) = w}"
    (is "?L = ?R")
  proof (intro equalityI subsetI)
    fix k assume "k \<in> ?L"
    then obtain j where j: "j \<in> {i + length w | w. w \<in> set a \<and> take (length w) (drop i s) = w}"
      and kj: "k \<in> {j + length w | w. w \<in> set b \<and> take (length w) (drop j s) = w}"
      by (rule UN_E)
    from j obtain u where u: "u \<in> set a" "take (length u) (drop i s) = u" "j = i + length u"
      by blast
    from kj obtain v where v: "v \<in> set b" "take (length v) (drop j s) = v" "k = j + length v"
      by blast
    have "u @ v \<in> set ws" unfolding ws using u(1) v(1) by auto
    moreover have "take (length (u @ v)) (drop i s) = u @ v"
      unfolding take_drop_append_iff using u v by simp
    moreover have "k = i + length (u @ v)" using u v by simp
    ultimately show "k \<in> ?R" by blast
  next
    fix k assume "k \<in> ?R"
    then obtain u v where "u \<in> set a" "v \<in> set b" "take (length (u @ v)) (drop i s) = u @ v"
      "k = i + length (u @ v)"
      unfolding ws by auto
    then have u: "u \<in> set a" "take (length u) (drop i s) = u"
      and v: "v \<in> set b" "take (length v) (drop (i + length u) s) = v"
      and k: "k = (i + length u) + length v"
      unfolding take_drop_append_iff by simp_all
    have "i + length u \<in> {i + length w | w. w \<in> set a \<and> take (length w) (drop i s) = w}"
      using u by blast
    moreover have "k \<in> {(i + length u) + length w | w. w \<in> set b \<and> take (length w) (drop (i + length u) s) = w}"
      using v k by blast
    ultimately show "k \<in> ?L" by (rule UN_I)
  qed
  finally show ?case .
next
  case (Alt r1 r2)
  then obtain a b where a: "lits r1 = Some a" and b: "lits r2 = Some b" and ws: "ws = a @ b"
    by (auto split: option.splits)
  have "fst ` set (mt (Alt r1 r2) s i c) = fst ` set (mt r1 s i c) \<union> fst ` set (mt r2 s i c)"
    by (simp add: image_Un)
  then show ?case unfolding Alt.IH(1) [OF a] Alt.IH(2) [OF b] ws by auto
next
  case (Group n r)
  have "fst ` set (mt (Group n r) s i c) = fst ` set (mt r s i c)"
    by (force simp: image_iff)
  then show ?case using Group by simp
next
  case (Opt r)
  then obtain a where a: "lits r = Some a" and ws: "ws = [] # a" by auto
  have "fst ` set (mt (Opt r) s i c) = insert i (fst ` set (mt r s i c))" by simp
  moreover have "{i + length w | w. w \<in> set ([] # a) \<and> take (length w) (drop i s) = w} =
      insert i {i + length w | w. w \<in> set a \<and> take (length w) (drop i s) = w}"
    by force
  ultimately show ?case by (simp only: Opt.IH [OF a] ws)
next
  case (Lit w)
  then have "ws = [w]" by simp
  show ?case
  proof (cases "take (length w) (drop i s) = w")
    case True
    then have "mt (Lit w) s i c = [(i + length w, c)]" using True by (simp only: mt.simps simp_thms if_True)
    moreover have "{i + length u | u. u \<in> set ws \<and> take (length u) (drop i s) = u} = {i + length w}"
      using True \<open>ws = [w]\<close> by auto
    ultimately show ?thesis by simp
  next
    case False
    then have "mt (Lit w) s i c = []" using False by (simp only: mt.simps if_False)
    moreover have "{i + length u | u. u \<in> set ws \<and> take (length u) (drop i s) = u} = {}"
      using False \<open>ws = [w]\<close> by auto
    ultimately show ?thesis by simp
  qed
qed (simp_all only: lits.simps option.distinct(1))

lemma suffix_iff_take_drop:
  "suffix w s \<longleftrightarrow> (\<exists>i\<le>length s. take (length w) (drop i s) = w \<and> i + length w = length s)"
proof
  assume "suffix w s"
  then have "length w \<le> length s" "drop (length s - length w) s = w"
    by (simp_all add: suffix_iff_drop)
  then show "\<exists>i\<le>length s. take (length w) (drop i s) = w \<and> i + length w = length s"
    by (intro exI [of _ "length s - length w"]) simp
next
  assume "\<exists>i\<le>length s. take (length w) (drop i s) = w \<and> i + length w = length s"
  then obtain i where "take (length w) (drop i s) = w" "i + length w = length s" by blast
  then have "drop (length s - length w) s = w" "length w \<le> length s" by auto
  then show "suffix w s" by (simp add: suffix_iff_drop)
qed

lemma matches_at_Seq_assoc:
  "matches_at (Seq r1 (Seq r2 r3)) s i \<longleftrightarrow> matches_at (Seq (Seq r1 r2) r3) s i"
  by (simp only: matches_at_Seq ends_Seq) blast

lemma js_test_Seq_assoc: "js_test (Seq r1 (Seq r2 r3)) s \<longleftrightarrow> js_test (Seq (Seq r1 r2) r3) s"
  by (simp only: js_test_iff matches_at_Seq_assoc)

lemma matches_at_lits_Eol:
  assumes "lits r = Some ws"
  shows "matches_at (Seq r Eol) s i \<longleftrightarrow>
           (\<exists>w\<in>set ws. take (length w) (drop i s) = w \<and> i + length w = length s)"
proof -
  have "matches_at (Seq r Eol) s i \<longleftrightarrow> (\<exists>j\<in>fst ` set (mt r s i Map.empty). j = length s)"
    by (simp only: matches_at_Seq) force
  then show ?thesis by (simp only: lits_ends [OF assms]) blast
qed

theorem js_test_lits_Eol:
  "lits r = Some ws \<Longrightarrow> js_test (Seq r Eol) s \<longleftrightarrow> (\<exists>w\<in>set ws. suffix w s)"
  by (simp only: js_test_iff matches_at_lits_Eol suffix_iff_take_drop) blast

lemma lits_Lit_Seq: "lits r = Some ws \<Longrightarrow> lits (Seq (Lit a) r) = Some (map ((@) a) ws)"
  by simp

theorem js_test_Lit_lits_Eol:
  "lits r = Some ws \<Longrightarrow> js_test (Seq (Lit a) (Seq r Eol)) s \<longleftrightarrow> (\<exists>w\<in>set ws. suffix (a @ w) s)"
  by (simp only: js_test_Seq_assoc js_test_lits_Eol [OF lits_Lit_Seq]) simp

end
