(* ===== verification/ChunkRules.thy ===== *)
theory ChunkRules
  imports JsRuntime JsRegex
begin

text \<open>
  The chunk classification table of \<open>src/index.js\<close> (the IIFE building
  \<open>optimization.splitChunks.cacheGroups\<close>, lines 79--160): eleven rules, each a
  function of the package name and the module's context path that returns a chunk
  name or \<open>undefined\<close>, and the \<open>for ... of\<close> loop of the \<open>bundle\<close> group's
  \<open>name\<close> function (lines 170--175) that returns the first truthy result. Each
  rule's regular expression literal is written as a \<^typ>\<open>regex\<close> of \<open>JsRegex\<close>.
  \<open>classify_spec\<close> is the contract of the specification (section 4.1) as plain
  string predicates; the lemmas prove that every rule's regular expression tests
  as that predicate and that the loop over the table computes \<open>classify_spec\<close>.
\<close>

subsection \<open>The rules' regular expressions\<close>

definition re_react :: regex where      \<comment> \<open>\<open>/^dva|redux|react/\<close>\<close>
  "re_react = Alt (Seq Bol (Lit ''dva'')) (Alt (Lit ''redux'') (Lit ''react''))"

definition re_rc :: regex where         \<comment> \<open>\<open>/^rc-/\<close>\<close>
  "re_rc = Seq Bol (Lit ''rc-'')"

definition re_polyfill :: regex where   \<comment> \<open>\<open>/polyfill|babel|core-js|...|async-validator/\<close>\<close>
  "re_polyfill =
     Alt (Lit ''polyfill'') (Alt (Lit ''babel'') (Alt (Lit ''core-js'')
       (Alt (Lit ''object-assign'') (Alt (Lit ''isarray'') (Alt (Lit ''symbol-observable'')
         (Alt (Lit ''is-plain-object'') (Alt (Lit ''isobject'') (Lit ''async-validator''))))))))"

definition re_moment :: regex where     \<comment> \<open>\<open>/moment/\<close>\<close>
  "re_moment = Lit ''moment''"

definition re_lodash :: regex where     \<comment> \<open>\<open>/lodash/\<close>\<close>
  "re_lodash = Lit ''lodash''"

definition re_bizcharts :: regex where  \<comment> \<open>\<open>/bizcharts/\<close>\<close>
  "re_bizcharts = Lit ''bizcharts''"

definition re_antv :: regex where       \<comment> \<open>\<open>/^@antv/\<close>\<close>
  "re_antv = Seq Bol (Lit ''@antv'')"

definition re_antd :: regex where       \<comment> \<open>\<open>/antd|@ant-design|sa-antd/\<close>\<close>
  "re_antd = Alt (Lit ''antd'') (Alt (Lit ''@ant-design'') (Lit ''sa-antd''))"

definition re_intl :: regex where       \<comment> \<open>\<open>/intl-messages/\<close>\<close>
  "re_intl = Lit ''intl-messages''"

definition re_sc :: regex where         \<comment> \<open>\<open>/^@sc/\<close>\<close>
  "re_sc = Seq Bol (Lit ''@sc'')"

subsection \<open>The table and the loop\<close>

text \<open>
  A rule receives the package name (already converted to a string, as \<open>test\<close>
  converts its argument) and \<open>module.context\<close>.
\<close>

type_synonym chunk_rule = "string \<Rightarrow> path \<Rightarrow> string option"

definition chunk_rules :: "chunk_rule list" where
  "chunk_rules =
     [\<lambda>name context. if js_test re_react name then Some ''react'' else None,
      \<lambda>name context. if js_test re_rc name then Some ''rc'' else None,
      \<lambda>name context. if js_test re_polyfill name then Some ''polyfill'' else None,
      \<lambda>name context. if js_test re_moment name then Some ''moment'' else None,
      \<lambda>name context. if js_test re_lodash name then Some ''lodash'' else None,
      \<lambda>name context. if js_test re_bizcharts name then Some ''bizcharts'' else None,
      \<lambda>name context. if js_test re_antv name then Some ''antv'' else None,
      \<lambda>name context. if js_test re_antd name then Some ''antd'' else None,
      \<lambda>name context. if js_test re_intl context then Some ''intl'' else None,
      \<lambda>name context. if js_test re_sc name then Some ''sc'' else None,
      \<lambda>name context. Some ''other'']"

text \<open>\<open>for (let rule of chunkRules) { const filename = rule(...); if (filename) return filename; }\<close>\<close>

fun first_filename :: "chunk_rule list \<Rightarrow> string \<Rightarrow> path \<Rightarrow> string option" where
  "first_filename [] name context = None"
| "first_filename (rule # rules) name context =
     (let filename = rule name context
      in if js_truthy_str filename then filename else first_filename rules name context)"

definition classify :: "string \<Rightarrow> path \<Rightarrow> string option" where
  "classify name context = first_filename chunk_rules name context"

definition chunk_labels :: "string list" where
  "chunk_labels = [''react'', ''rc'', ''polyfill'', ''moment'', ''lodash'', ''bizcharts'',
                   ''antv'', ''antd'', ''intl'', ''sc'', ''other'']"

subsection \<open>The contract of the specification\<close>

definition polyfill_markers :: "string list" where
  "polyfill_markers = [''polyfill'', ''babel'', ''core-js'', ''object-assign'', ''isarray'',
     ''symbol-observable'', ''is-plain-object'', ''isobject'', ''async-validator'']"

definition classify_spec :: "string \<Rightarrow> path \<Rightarrow> string" where
  "classify_spec name context =
     (if prefix ''dva'' name \<or> sublist ''redux'' name \<or> sublist ''react'' name then ''react''
      else if prefix ''rc-'' name then ''rc''
      else if (\<exists>w\<in>set polyfill_markers. sublist w name) then ''polyfill''
      else if sublist ''moment'' name then ''moment''
      else if sublist ''lodash'' name then ''lodash''
      else if sublist ''bizcharts'' name then ''bizcharts''
      else if prefix ''@antv'' name then ''antv''
      else if sublist ''antd'' name \<or> sublist ''@ant-design'' name \<or> sublist ''sa-antd'' name
        then ''antd''
      else if sublist ''intl-messages'' context then ''intl''
      else if prefix ''@sc'' name then ''sc''
      else ''other'')"

subsection \<open>Each rule's regular expression\<close>

lemma js_test_rules [simp]:
  "js_test re_react s \<longleftrightarrow> prefix ''dva'' s \<or> sublist ''redux'' s \<or> sublist ''react'' s"
  "js_test re_rc s \<longleftrightarrow> prefix ''rc-'' s"
  "js_test re_polyfill s \<longleftrightarrow> (\<exists>w\<in>set polyfill_markers. sublist w s)"
  "js_test re_moment s \<longleftrightarrow> sublist ''moment'' s"
  "js_test re_lodash s \<longleftrightarrow> sublist ''lodash'' s"
  "js_test re_bizcharts s \<longleftrightarrow> sublist ''bizcharts'' s"
  "js_test re_antv s \<longleftrightarrow> prefix ''@antv'' s"
  "js_test re_antd s \<longleftrightarrow> sublist ''antd'' s \<or> sublist ''@ant-design'' s \<or> sublist ''sa-antd'' s"
  "js_test re_intl s \<longleftrightarrow> sublist ''intl-messages'' s"
  "js_test re_sc s \<longleftrightarrow> prefix ''@sc'' s"
  by (simp_all only: re_react_def re_rc_def re_polyfill_def re_moment_def re_lodash_def
        re_bizcharts_def re_antv_def re_antd_def re_intl_def re_sc_def polyfill_markers_def
        js_test_Alt js_test_Lit js_test_Bol_Lit) auto

subsection \<open>The loop\<close>

text \<open>
  C21: the \<open>for ... of\<close> loop with its early return is equivalent to the reference
  definition by \<open>find\<close>: the result of the first rule whose result is truthy, or
  \<open>undefined\<close> when there is none.
\<close>

theorem first_filename_find:
  "first_filename rules name context =
     (case find (\<lambda>rule. js_truthy_str (rule name context)) rules of
        None \<Rightarrow> None
      | Some rule \<Rightarrow> rule name context)"
  by (induction rules) (auto simp: Let_def)

text \<open>
  C22: whatever the table, the loop returns only a non-empty name that one of its
  rules produced for these arguments.
\<close>

theorem first_filename_truthy:
  "first_filename rules name context = Some f \<Longrightarrow>
     f \<noteq> [] \<and> (\<exists>rule\<in>set rules. rule name context = Some f)"
  by (induction rules) (auto simp: Let_def split: if_splits)

lemma first_filename_truthy_witness:
  "first_filename chunk_rules ''react-dom'' [] = Some ''react'' \<and>
   ''react'' \<noteq> [] \<and> (\<exists>rule\<in>set chunk_rules. rule ''react-dom'' [] = Some ''react'')"
proof -
  have h: "first_filename chunk_rules ''react-dom'' [] = Some ''react''" by code_simp
  show ?thesis using h first_filename_truthy [OF h] by blast
qed

text \<open>A rule guarded by a test contributes its label exactly when the test holds.\<close>

lemma first_filename_guard:
  "l \<noteq> [] \<Longrightarrow>
     first_filename ((\<lambda>name context. if P name context then Some l else None) # rules) name context =
     (if P name context then Some l else first_filename rules name context)"
  by (simp add: Let_def)

lemma first_filename_const:
  "l \<noteq> [] \<Longrightarrow> first_filename ((\<lambda>name context. Some l) # rules) name context = Some l"
  by (simp add: Let_def)

lemmas first_filename_table = first_filename_guard first_filename_const list.distinct(2)
  not_False_eq_True

subsection \<open>Properties of the classifier\<close>

text \<open>
  C2: the loop over the rule table implements the contract of the specification:
  for every package name and context path it returns the label of the first rule
  (in the declared order) whose string predicate holds.
\<close>

theorem classify_refines_spec: "classify name context = Some (classify_spec name context)"
  unfolding classify_def chunk_rules_def classify_spec_def
  by (simp only: first_filename_table js_test_rules if_distrib [where f = Some])

text \<open>
  C1: the classifier is total: on every input it returns one of the eleven labels
  of the table, never \<open>undefined\<close>.
\<close>

theorem classify_total: "\<exists>l\<in>set chunk_labels. classify name context = Some l"
  unfolding classify_def chunk_rules_def chunk_labels_def
  by (simp only: first_filename_table) auto

end
