(* ===== verification/CacheGroups.thy ===== *)
theory CacheGroups
  imports ChunkRules
begin

text \<open>
  The three cache groups of \<open>optimization.splitChunks.cacheGroups\<close> in
  \<open>src/index.js\<close> (lines 161--195): \<open>bundle\<close>, whose \<open>name(module)\<close> extracts the
  package name from \<open>module.context\<close> with
  \<open>/[\\/]node_modules[\\/](.*?)([\\/]|$)/\<close> and hands it to the rule table;
  \<open>initial\<close>, a constant name; and \<open>dynamic\<close>, whose \<open>name(module)\<close> builds
  \<open>app.<segment>.dynamic\<close> from the second path segment after \<open>node_modules\<close>.
  \<open>match(...)[1]\<close> on a path the pattern does not match reads a property of
  \<open>null\<close>: that is the \<open>TypeError\<close> branch. The lemmas characterise, for every
  path, where the engine's leftmost match starts and what the lazy group
  captures, so that \<open>name(module)\<close> is the rule table applied to the path segment
  after the first \<open>node_modules\<close> directory.
\<close>

subsection \<open>Regular expressions of the cache groups\<close>

definition path_sep :: cclass where        \<comment> \<open>\<open>[\\/]\<close>\<close>
  "path_sep = CharSet [CHR 0x5C, CHR ''/'']"

definition is_sep :: "char \<Rightarrow> bool" where
  "is_sep x \<longleftrightarrow> x = CHR 0x5C \<or> x = CHR ''/''"

definition line_term :: "char \<Rightarrow> bool" where
  "line_term x \<longleftrightarrow> x = CHR 0x0A \<or> x = CHR 0x0D"

definition re_node_modules :: regex where  \<comment> \<open>\<open>/[\\/]node_modules/\<close>, the groups' \<open>test\<close>\<close>
  "re_node_modules = Seq (Cls path_sep) (Lit ''node_modules'')"

definition re_package :: regex where       \<comment> \<open>\<open>/[\\/]node_modules[\\/](.*?)([\\/]|$)/\<close>\<close>
  "re_package =
     Seq (Cls path_sep) (Seq (Lit ''node_modules'') (Seq (Cls path_sep)
       (Seq (Group 1 (LazyStar AnyChar)) (Group 2 (Alt (Cls path_sep) Eol)))))"

definition re_dynamic :: regex where       \<comment> \<open>\<open>/[\\/]node_modules[\\/](.*?)[\\/](.*?)([\\/]|$)/\<close>\<close>
  "re_dynamic =
     Seq (Cls path_sep) (Seq (Lit ''node_modules'') (Seq (Cls path_sep)
       (Seq (Group 1 (LazyStar AnyChar)) (Seq (Cls path_sep)
         (Seq (Group 2 (LazyStar AnyChar)) (Group 3 (Alt (Cls path_sep) Eol)))))))"

subsection \<open>The name functions\<close>

definition null_read :: "string \<Rightarrow> js_error" where
  "null_read p = TypeError (''Cannot read properties of null (reading '' @ p @ '')'')"

text \<open>\<open>bundle.name(module)\<close>: the rule loop may in principle fall off its end (\<open>None\<close>).\<close>

definition bundle_name :: "path \<Rightarrow> string option js_result" where
  "bundle_name context =
     (case js_exec re_package context of
        None \<Rightarrow> Inl (null_read ''1'')
      | Some m \<Rightarrow>
          (let packageName = js_to_string (js_group context m 1)
           in Inr (first_filename chunk_rules packageName context)))"

text \<open>\<open>dynamic.name(module)\<close>: a template literal converts \<open>match[2]\<close> to a string.\<close>

definition dynamic_name :: "path \<Rightarrow> string js_result" where
  "dynamic_name context =
     (case js_exec re_dynamic context of
        None \<Rightarrow> Inl (null_read ''2'')
      | Some m \<Rightarrow> Inr (''app.'' @ js_to_string (js_group context m 2) @ ''.dynamic''))"

datatype chunks_sel = AllChunks | InitialChunks | AsyncChunks

datatype group_name = NameFn "path \<Rightarrow> string option js_result" | NameConst string

record cache_group =
  cg_key :: string
  cg_test :: regex
  cg_name :: group_name
  cg_chunks :: "chunks_sel option"
  cg_enforce :: bool

definition cache_groups :: "cache_group list" where
  "cache_groups =
     [\<lparr>cg_key = ''bundle'', cg_test = re_node_modules, cg_name = NameFn bundle_name,
       cg_chunks = None, cg_enforce = False\<rparr>,
      \<lparr>cg_key = ''initial'', cg_test = re_node_modules, cg_name = NameConst ''app.initial'',
       cg_chunks = Some InitialChunks, cg_enforce = False\<rparr>,
      \<lparr>cg_key = ''dynamic'', cg_test = re_node_modules,
       cg_name = NameFn (\<lambda>context. map_sum id Some (dynamic_name context)),
       cg_chunks = Some AsyncChunks, cg_enforce = True\<rparr>]"

subsection \<open>Reference functions on paths\<close>

definition pkg_seg :: "path \<Rightarrow> nat \<Rightarrow> string" where
  "pkg_seg s j = takeWhile (\<lambda>x. \<not> is_sep x) (drop j s)"

text \<open>
  Both patterns continue after a lazy group with something that fails on a
  character that is not a separator: the group extends to the end of the segment.
\<close>

definition fails_off_sep :: "regex \<Rightarrow> path \<Rightarrow> bool" where
  "fails_off_sep r s \<longleftrightarrow> (\<forall>j d. j < length s \<longrightarrow> \<not> is_sep (s ! j) \<longrightarrow> mt r s j d = [])"

definition node_modules_at :: "path \<Rightarrow> nat \<Rightarrow> bool" where
  "node_modules_at s p \<longleftrightarrow>
     p + 13 < length s \<and> is_sep (s ! p) \<and> take 12 (drop (Suc p) s) = ''node_modules'' \<and>
     is_sep (s ! (p + 13))"

definition package_at :: "path \<Rightarrow> nat \<Rightarrow> bool" where
  "package_at s p \<longleftrightarrow> node_modules_at s p \<and> (\<forall>x\<in>set (pkg_seg s (p + 14)). \<not> line_term x)"

text \<open>
  The package identity of the specification: the segment after the first
  \<open>node_modules\<close> directory at which the pattern can match.
\<close>

definition package_name_ref :: "path \<Rightarrow> string option" where
  "package_name_ref s =
     map_option (\<lambda>p. pkg_seg s (p + 14)) (find (package_at s) [0..<Suc (length s)])"

subsection \<open>Generic facts about the matcher\<close>

lemma cls_match_path_sep [simp]: "cls_match path_sep x \<longleftrightarrow> is_sep x"
  by (auto simp: path_sep_def is_sep_def)

lemma cls_match_AnyChar: "cls_match AnyChar x \<longleftrightarrow> \<not> line_term x"
  by (simp add: line_term_def)

lemma mt_Seq_Cls [simp]:
  "mt (Seq (Cls cl) r) s i c =
     (if i < length s \<and> cls_match cl (s ! i) then mt r s (Suc i) c else [])"
  by auto

lemma mt_Seq_Lit [simp]:
  "mt (Seq (Lit w) r) s i c =
     (if take (length w) (drop i s) = w then mt r s (i + length w) c else [])"
  by simp

lemma mt_Seq_Group_LazyStar:
  "mt (Seq (Group n (LazyStar cl)) r) s i c =
     concat (map (\<lambda>j. mt r s j (c(n \<mapsto> (i, j)))) (cls_span cl (drop i s) i))"
  by (simp add: comp_def)

lemma mt_stop:
  "mt (Group m (Alt (Cls path_sep) Eol)) s j c =
     (if j < length s \<and> is_sep (s ! j) then [(Suc j, c(m \<mapsto> (j, Suc j)))] else []) @
     (if j = length s then [(j, c(m \<mapsto> (j, j)))] else [])"
  by simp

lemma cls_span_append:
  "\<forall>x\<in>set u. cls_match cl x \<Longrightarrow>
     cls_span cl (u @ rest) i = [i..<i + length u] @ cls_span cl rest (i + length u)"
proof (induction u arbitrary: i)
  case (Cons x u)
  then have "cls_span cl (u @ rest) (Suc i) = [Suc i..<Suc i + length u] @
               cls_span cl rest (Suc i + length u)" by simp
  moreover have "i # [Suc i..<Suc i + length u] = [i..<i + length (x # u)]"
    by (simp add: upt_rec)
  ultimately show ?case using Cons.prems by simp
qed simp

lemma cls_span_hd: "\<exists>ys. cls_span cl xs i = i # ys"
  by (cases xs) auto

lemma cls_span_stop: "\<not> cls_match cl x \<Longrightarrow> cls_span cl (x # xs) i = [i]"
  by simp

text \<open>
  The lazy star skips every position of a run \<open>u\<close> of class characters at which
  the rest of the pattern fails.
\<close>

lemma lazy_skip:
  assumes "drop i s = u @ rest" and "\<forall>x\<in>set u. cls_match cl x"
    and "\<forall>k<length u. mt r s (i + k) (c(n \<mapsto> (i, i + k))) = []"
  shows "mt (Seq (Group n (LazyStar cl)) r) s i c =
         concat (map (\<lambda>j. mt r s j (c(n \<mapsto> (i, j)))) (cls_span cl rest (i + length u)))"
proof -
  have "\<forall>j\<in>set [i..<i + length u]. mt r s j (c(n \<mapsto> (i, j))) = []"
  proof
    fix j assume "j \<in> set [i..<i + length u]"
    then obtain k where "k < length u" "j = i + k" by (metis add_diff_inverse_nat atLeastLessThan_iff
        nat_add_left_cancel_less not_less set_upt)
    then show "mt r s j (c(n \<mapsto> (i, j))) = []" using assms(3) by simp
  qed
  then show ?thesis
    using assms(1,2) by (simp only: mt_Seq_Group_LazyStar cls_span_append concat_map_skip)
qed

subsection \<open>The lazy group over one path segment\<close>

lemma drop_append_nth:
  assumes "drop j s = v @ w" and "k < length v"
  shows "j + k < length s \<and> s ! (j + k) = v ! k"
proof -
  have "length v \<le> length s - j" using assms(1) by (metis le_add1 length_append length_drop)
  then have lt: "j + k < length s" using assms(2) by linarith
  have "s ! (j + k) = drop j s ! k" using lt by simp
  then show ?thesis using lt assms by (simp add: nth_append)
qed

lemma fails_off_sep_stop: "fails_off_sep (Group m (Alt (Cls path_sep) Eol)) s"
  by (simp add: fails_off_sep_def)

lemma fails_off_sep_Cls: "fails_off_sep (Seq (Cls path_sep) r) s"
  by (simp add: fails_off_sep_def)

lemma pkg_seg_split:
  "drop j s = pkg_seg s j @ dropWhile (\<lambda>x. \<not> is_sep x) (drop j s)"
  by (simp add: pkg_seg_def)

lemma pkg_seg_nth:
  "k < length (pkg_seg s j) \<Longrightarrow> j + k < length s \<and> \<not> is_sep (s ! (j + k))"
proof -
  assume k: "k < length (pkg_seg s j)"
  then have "j + k < length s \<and> s ! (j + k) = pkg_seg s j ! k"
    using drop_append_nth [OF pkg_seg_split] by blast
  moreover have "\<not> is_sep (pkg_seg s j ! k)"
    using k nth_mem [OF k] set_takeWhileD unfolding pkg_seg_def by fastforce
  ultimately show ?thesis by simp
qed

lemma lazy_seg_ok:
  assumes "fails_off_sep r s" and "\<forall>x\<in>set (pkg_seg s j). \<not> line_term x"
  shows "\<exists>ys. mt (Seq (Group n (LazyStar AnyChar)) r) s j c =
           mt r s (j + length (pkg_seg s j)) (c(n \<mapsto> (j, j + length (pkg_seg s j)))) @ ys"
proof -
  let ?u = "pkg_seg s j" and ?rest = "dropWhile (\<lambda>x. \<not> is_sep x) (drop j s)"
  have "\<forall>k<length ?u. mt r s (j + k) (c(n \<mapsto> (j, j + k))) = []"
    using assms(1) pkg_seg_nth unfolding fails_off_sep_def by blast
  then have "mt (Seq (Group n (LazyStar AnyChar)) r) s j c =
             concat (map (\<lambda>i. mt r s i (c(n \<mapsto> (j, i)))) (cls_span AnyChar ?rest (j + length ?u)))"
    using assms(2) by (intro lazy_skip [OF pkg_seg_split]) (auto simp: line_term_def)
  moreover obtain zs where "cls_span AnyChar ?rest (j + length ?u) = (j + length ?u) # zs"
    using cls_span_hd by blast
  ultimately show ?thesis by simp
qed

lemma lazy_seg_fail:
  assumes "fails_off_sep r s" and "\<exists>x\<in>set (pkg_seg s j). line_term x"
  shows "mt (Seq (Group n (LazyStar AnyChar)) r) s j c = []"
proof -
  obtain u1 t u2 where u: "pkg_seg s j = u1 @ t # u2" and t: "line_term t"
    and u1: "\<forall>x\<in>set u1. \<not> line_term x"
    using split_list_first_prop [OF assms(2)] by blast
  let ?rest = "dropWhile (\<lambda>x. \<not> is_sep x) (drop j s)"
  have d: "drop j s = u1 @ (t # u2 @ ?rest)" using pkg_seg_split [of j s] u by simp
  have k: "\<forall>k<length u1. mt r s (j + k) (c(n \<mapsto> (j, j + k))) = []"
  proof (intro allI impI)
    fix k assume "k < length u1"
    then have "k < length (pkg_seg s j)" using u by simp
    then have "j + k < length s \<and> \<not> is_sep (s ! (j + k))" by (rule pkg_seg_nth)
    then show "mt r s (j + k) (c(n \<mapsto> (j, j + k))) = []"
      using assms(1) unfolding fails_off_sep_def by blast
  qed
  have t_at: "j + length u1 < length s \<and> \<not> is_sep (s ! (j + length u1))"
    using pkg_seg_nth [of "length u1" s j] u by simp
  have "mt (Seq (Group n (LazyStar AnyChar)) r) s j c =
        concat (map (\<lambda>i. mt r s i (c(n \<mapsto> (j, i))))
          (cls_span AnyChar (t # u2 @ ?rest) (j + length u1)))"
    using u1 k by (intro lazy_skip [OF d]) (auto simp: line_term_def)
  also have "\<dots> = mt r s (j + length u1) (c(n \<mapsto> (j, j + length u1)))"
  proof -
    have nt: "\<not> cls_match AnyChar t" using t by (simp add: line_term_def)
    show ?thesis by (simp only: cls_span_stop [OF nt]) simp
  qed
  also have "\<dots> = []" using assms(1) t_at unfolding fails_off_sep_def by blast
  finally show ?thesis .
qed

subsection \<open>Where the package pattern matches\<close>

lemma take_drop_Suc_length:
  "take 12 (drop (Suc p) s) = ''node_modules'' \<Longrightarrow> p + 12 < length s"
proof -
  assume "take 12 (drop (Suc p) s) = ''node_modules''"
  then have "length (take 12 (drop (Suc p) s)) = 12" by simp
  then show ?thesis by simp
qed

lemma mt_re_package_prefix:
  "mt re_package s p c =
     (if node_modules_at s p
      then mt (Seq (Group 1 (LazyStar AnyChar)) (Group 2 (Alt (Cls path_sep) Eol))) s (p + 14) c
      else [])"
proof -
  have l: "length ''node_modules'' = 12" by simp
  have e: "Suc p + 12 = p + 13" "Suc (p + 13) = p + 14" by simp_all
  show ?thesis
    unfolding re_package_def mt_Seq_Cls mt_Seq_Lit l e node_modules_at_def
    using take_drop_Suc_length [of p s] by (auto simp del: mt.simps)
qed

lemma mt_re_package_None: "\<not> package_at s p \<Longrightarrow> mt re_package s p c = []"
  using lazy_seg_fail [OF fails_off_sep_stop] by (auto simp: package_at_def mt_re_package_prefix)

lemma nth_length_append_hd: "xs = u @ r \<Longrightarrow> r \<noteq> [] \<Longrightarrow> xs ! length u = hd r"
  by (simp add: nth_append hd_conv_nth)

lemma mt_stop_segment_end:
  assumes "p \<le> length s"
  shows "p + length (pkg_seg s p) \<le> length s \<and>
    (p + length (pkg_seg s p) < length s \<longrightarrow> is_sep (s ! (p + length (pkg_seg s p))))"
proof -
  let ?u = "pkg_seg s p" and ?rest = "dropWhile (\<lambda>x. \<not> is_sep x) (drop p s)"
  have d: "drop p s = ?u @ ?rest" by (rule pkg_seg_split)
  then have len: "length ?u + length ?rest = length s - p"
    by (metis length_append length_drop)
  show ?thesis
  proof (intro conjI impI)
    show "p + length ?u \<le> length s" using len assms by linarith
  next
    assume lt: "p + length ?u < length s"
    then have "0 < length ?rest" using len by linarith
    then have ne: "?rest \<noteq> []" by (rule length_greater_0_conv [THEN iffD1])
    then have "is_sep (hd ?rest)" using hd_dropWhile [OF ne] by simp
    moreover have "s ! (p + length ?u) = drop p s ! length ?u" using lt by simp
    moreover have "drop p s ! length ?u = hd ?rest" by (rule nth_length_append_hd [OF d ne])
    ultimately show "is_sep (s ! (p + length ?u))" by simp
  qed
qed

lemma stop_head:
  assumes "j \<le> length s"
  shows "\<exists>e d zs. mt (Group m (Alt (Cls path_sep) Eol)) s (j + length (pkg_seg s j)) c = (e, d) # zs \<and>
           (\<forall>n. n \<noteq> m \<longrightarrow> d n = c n)"
proof (cases "j + length (pkg_seg s j) < length s")
  case True
  then have "is_sep (s ! (j + length (pkg_seg s j)))" using mt_stop_segment_end [OF assms] by simp
  with True show ?thesis by (simp only: mt_stop) simp
next
  case False
  then have "j + length (pkg_seg s j) = length s" using mt_stop_segment_end [OF assms] by simp
  then show ?thesis by (simp only: mt_stop) simp
qed

lemma mt_re_package_Some:
  assumes "package_at s p"
  shows "\<exists>e d ys. mt re_package s p c = (e, d) # ys \<and>
           d 1 = Some (p + 14, p + 14 + length (pkg_seg s (p + 14)))"
proof -
  let ?j = "p + 14" let ?k = "p + 14 + length (pkg_seg s (p + 14))"
  let ?stop = "Group 2 (Alt (Cls path_sep) Eol)"
  have nm: "node_modules_at s p" and seg: "\<forall>x\<in>set (pkg_seg s ?j). \<not> line_term x"
    using assms by (simp_all add: package_at_def)
  have jle: "?j \<le> length s" using nm by (simp add: node_modules_at_def)
  have pre: "mt re_package s p c = mt (Seq (Group 1 (LazyStar AnyChar)) ?stop) s ?j c"
    using nm by (simp only: mt_re_package_prefix if_True)
  obtain ys where eq: "mt (Seq (Group 1 (LazyStar AnyChar)) ?stop) s ?j c =
      mt ?stop s ?k (c(1 \<mapsto> (?j, ?k))) @ ys"
    using lazy_seg_ok [OF fails_off_sep_stop seg] by blast
  obtain e d zs where "mt ?stop s ?k (c(1 \<mapsto> (?j, ?k))) = (e, d) # zs"
      "\<forall>n. n \<noteq> 2 \<longrightarrow> d n = (c(1 \<mapsto> (?j, ?k))) n"
    using stop_head [OF jle] by blast
  then have "\<exists>e d zs. mt ?stop s ?k (c(1 \<mapsto> (?j, ?k))) = (e, d) # zs \<and> d 1 = Some (?j, ?k)"
    by auto
  then show ?thesis using pre eq by auto
qed

lemma matches_at_re_package: "matches_at re_package s p \<longleftrightarrow> package_at s p"
proof
  assume "matches_at re_package s p"
  then show "package_at s p" using mt_re_package_None by blast
next
  assume "package_at s p"
  then show "matches_at re_package s p" using mt_re_package_Some [of s p Map.empty] by auto
qed

lemma exec_at_find:
  "exec_at r s ps =
     map_option (\<lambda>p. case hd (mt r s p Map.empty) of (j, c) \<Rightarrow> \<lparr>m_index = p, m_end = j, m_caps = c\<rparr>)
       (find (matches_at r s) ps)"
  by (induction ps) (auto split: list.splits)

lemma substr_pkg_seg: "substr s j (j + length (pkg_seg s j)) = pkg_seg s j"
  by (simp add: substr_def pkg_seg_def takeWhile_eq_take [symmetric])

lemma js_exec_re_package:
  "map_option (\<lambda>m. js_group s m 1) (js_exec re_package s) = map_option Some (package_name_ref s)"
proof -
  have f: "find (matches_at re_package s) xs = find (package_at s) xs" for xs
    by (simp add: matches_at_re_package)
  have g: "package_at s p \<Longrightarrow>
      js_group s (case hd (mt re_package s p Map.empty) of (j, c) \<Rightarrow>
        \<lparr>m_index = p, m_end = j, m_caps = c\<rparr>) 1 = Some (pkg_seg s (p + 14))" for p
    using mt_re_package_Some [of s p Map.empty] by (auto simp: js_group_def substr_pkg_seg)
  show ?thesis
  proof (cases "find (package_at s) [0..<Suc (length s)]")
    case None
    then show ?thesis by (simp add: js_exec_def exec_at_find f package_name_ref_def)
  next
    case (Some p)
    then have "package_at s p" by (rule find_Some_imp)
    then show ?thesis using Some g by (simp add: js_exec_def exec_at_find f package_name_ref_def)
  qed
qed

lemma not_sep_node_modules: "\<forall>x\<in>set ''node_modules''. \<not> is_sep x"
  by (simp add: is_sep_def)

text \<open>
  No \<open>node_modules\<close> directory starts inside \<open>pre\<close> when the word does not occur
  in \<open>pre\<close>: an occurrence straddling the separator after \<open>pre\<close> would contain it.
\<close>

lemma no_node_modules_before:
  assumes "is_sep a" and "\<not> sublist ''node_modules'' pre" and "p < length pre"
  shows "\<not> node_modules_at (pre @ a # t) p"
proof
  let ?s = "pre @ a # t"
  assume "node_modules_at ?s p"
  then have nm: "take 12 (drop (Suc p) ?s) = ''node_modules''" by (simp add: node_modules_at_def)
  show False
  proof (cases "Suc p + 12 \<le> length pre")
    case True
    then have h: "take 12 (drop (Suc p) ?s) = take 12 (drop (Suc p) pre)" by simp
    have l: "length ''node_modules'' = 12" by simp
    have "take (length ''node_modules'') (drop (Suc p) pre) = ''node_modules''"
      unfolding l by (rule trans [OF h [symmetric] nm])
    then have "sublist ''node_modules'' pre" by (rule take_drop_eq_imp_sublist)
    with assms(2) show False by contradiction
  next
    case False
    let ?k = "length pre - Suc p"
    have k: "?k < 12" using False assms(3) by linarith
    have "''node_modules'' ! ?k = take 12 (drop (Suc p) ?s) ! ?k" using nm by simp
    also have "\<dots> = drop (Suc p) ?s ! ?k" using k by (rule nth_take)
    also have "\<dots> = ?s ! (Suc p + ?k)" using assms(3) by (intro nth_drop) simp
    also have "Suc p + ?k = length pre" using assms(3) by simp
    also have "?s ! length pre = a" by simp
    finally have "''node_modules'' ! ?k = a" .
    moreover have "''node_modules'' ! ?k \<in> set ''node_modules''" using k by (intro nth_mem) simp
    ultimately show False using not_sep_node_modules assms(1) by metis
  qed
qed

lemma find_upt_first:
  assumes "P q" and "q < n" and "\<forall>p<q. \<not> P p"
  shows "find P [0..<n] = Some q"
proof -
  have "[0..<n] = [0..<q] @ [q..<n]" using upt_add_eq_append [of 0 q "n - q"] assms(2) by simp
  also have "[q..<n] = q # [Suc q..<n]" using assms(2) by (rule upt_conv_Cons)
  finally have "[0..<n] = [0..<q] @ q # [Suc q..<n]" .
  moreover have "find P [0..<q] = None" using assms(3) by (simp add: find_None_iff)
  ultimately show ?thesis using assms(1) by (simp add: find_append_eq)
qed

lemma pkg_seg_path:
  assumes "\<forall>x\<in>set pkg. \<not> is_sep x" and "rest = [] \<or> is_sep (hd rest)"
  shows "pkg_seg (pre @ a # ''node_modules'' @ b # pkg @ rest) (length pre + 14) = pkg"
proof -
  have "drop (length pre + 14) (pre @ a # ''node_modules'' @ b # pkg @ rest) = pkg @ rest"
    by simp
  moreover have "takeWhile (\<lambda>x. \<not> is_sep x) (pkg @ rest) = pkg"
    using assms by (cases rest) (auto simp: takeWhile_append2)
  ultimately show ?thesis by (simp add: pkg_seg_def)
qed

lemma node_modules_at_path:
  assumes "is_sep a" and "is_sep b"
  shows "node_modules_at (pre @ a # ''node_modules'' @ b # t) (length pre)"
  using assms by (simp add: node_modules_at_def nth_append)

lemma package_name_ref_path:
  assumes "is_sep a" and "is_sep b" and "\<not> sublist ''node_modules'' pre"
    and "\<forall>x\<in>set pkg. \<not> is_sep x \<and> \<not> line_term x" and "rest = [] \<or> is_sep (hd rest)"
  shows "package_name_ref (pre @ a # ''node_modules'' @ b # pkg @ rest) = Some pkg"
proof -
  let ?s = "pre @ a # ''node_modules'' @ b # pkg @ rest"
  have seg: "pkg_seg ?s (length pre + 14) = pkg" using assms(4,5) by (intro pkg_seg_path) auto
  have at: "package_at ?s (length pre)"
    using node_modules_at_path [OF assms(1,2)] seg assms(4) by (simp add: package_at_def)
  have before: "\<forall>p<length pre. \<not> package_at ?s p"
    using no_node_modules_before [OF assms(1,3)] by (simp add: package_at_def)
  have "find (package_at ?s) [0..<Suc (length ?s)] = Some (length pre)"
    using at before by (intro find_upt_first) simp_all
  then show ?thesis using seg by (simp add: package_name_ref_def)
qed

lemma dynamic_name_shape: "dynamic_name context = Inr n \<Longrightarrow> \<exists>g. n = ''app.'' @ g @ ''.dynamic''"
  by (auto simp: dynamic_name_def split: option.splits)

subsection \<open>Properties of the bundle group's name function\<close>

text \<open>
  C3: \<open>bundle.name(module)\<close> is the rule table applied to the package identity of
  the specification (the segment after the first \<open>node_modules\<close> directory at which
  the pattern matches) and throws a \<open>TypeError\<close> exactly when there is none.
\<close>

theorem bundle_name_refines:
  "bundle_name ctx =
     (case package_name_ref ctx of
        None \<Rightarrow> Inl (null_read ''1'')
      | Some pkg \<Rightarrow> Inr (classify pkg ctx))"
proof (cases "js_exec re_package ctx")
  case None
  then have "package_name_ref ctx = None"
    using js_exec_re_package [of ctx] by simp
  then show ?thesis using None by (simp add: bundle_name_def)
next
  case (Some m)
  then obtain pkg where "package_name_ref ctx = Some pkg" "js_group ctx m 1 = Some pkg"
    using js_exec_re_package [of ctx] by (cases "package_name_ref ctx") auto
  then show ?thesis using Some by (simp add: bundle_name_def classify_def)
qed

text \<open>
  C4: on a path \<open>pre/node_modules/pkg\<close> followed by the end or a separator, where
  \<open>pre\<close> does not contain \<open>node_modules\<close> and \<open>pkg\<close> has no separator or line
  break, \<open>module.context.match(...)[1]\<close> is \<open>pkg\<close> (for a scoped package, its scope).
\<close>

theorem package_match_path:
  assumes "is_sep a" and "is_sep b" and "\<not> sublist ''node_modules'' pre"
    and "\<forall>x\<in>set pkg. \<not> is_sep x \<and> \<not> line_term x" and "rest = [] \<or> is_sep (hd rest)"
  shows "map_option (\<lambda>m. js_group (pre @ a # ''node_modules'' @ b # pkg @ rest) m 1)
           (js_exec re_package (pre @ a # ''node_modules'' @ b # pkg @ rest)) = Some (Some pkg)"
  using js_exec_re_package package_name_ref_path [OF assms] by simp

lemma package_match_path_witness:
  "is_sep (CHR ''/'') \<and> \<not> sublist ''node_modules'' ''/app'' \<and>
   map_option (\<lambda>m. js_group ''/app/node_modules/lodash/fp'' m 1)
     (js_exec re_package ''/app/node_modules/lodash/fp'') = Some (Some ''lodash'')"
proof -
  have h: "is_sep (CHR ''/'')" "\<not> sublist ''node_modules'' ''/app''"
    "\<forall>x\<in>set ''lodash''. \<not> is_sep x \<and> \<not> line_term x" "''/fp'' = [] \<or> is_sep (hd ''/fp'')"
    by (auto simp: is_sep_def line_term_def dest: sublist_length_le)
  show ?thesis using h package_match_path [OF h(1) h(1) h(2) h(3) h(4)] by simp
qed

lemma no_package_at_end:
  assumes "is_sep a" and "\<not> sublist ''node_modules'' pre"
  shows "\<not> package_at (pre @ a # ''node_modules'') p"
proof (cases "p < length pre")
  case True
  then show ?thesis using no_node_modules_before [OF assms] by (simp add: package_at_def)
next
  case False
  then show ?thesis by (simp add: package_at_def node_modules_at_def)
qed

text \<open>
  C7 (a defect): the groups' \<open>test\<close> accepts a path that ends in the
  \<open>node_modules\<close> directory itself (the context of a file placed directly in
  \<open>node_modules\<close>), but the package pattern needs a separator after it, so
  \<open>bundle.name\<close> reads \<open>null[1]\<close> and throws.
\<close>

theorem bundle_name_node_modules_end:
  assumes "is_sep a" and "\<not> sublist ''node_modules'' pre"
  shows "js_test re_node_modules (pre @ a # ''node_modules'') \<and>
         bundle_name (pre @ a # ''node_modules'') = Inl (null_read ''1'')"
proof
  show "js_test re_node_modules (pre @ a # ''node_modules'')"
    unfolding js_test_iff using assms(1)
    by (intro exI [of _ "length pre"]) (simp add: re_node_modules_def nth_append)
next
  let ?s = "pre @ a # ''node_modules''"
  have "find (package_at ?s) [0..<Suc (length ?s)] = None"
    using no_package_at_end [OF assms] by (simp add: find_None_iff)
  then have "js_exec re_package ?s = None"
    using js_exec_re_package [of ?s] by (simp add: package_name_ref_def)
  then show "bundle_name ?s = Inl (null_read ''1'')" by (simp add: bundle_name_def)
qed

lemma bundle_name_node_modules_end_witness:
  "is_sep (CHR ''/'') \<and> \<not> sublist ''node_modules'' ''/app'' \<and>
   js_test re_node_modules ''/app/node_modules'' \<and>
   bundle_name ''/app/node_modules'' = Inl (null_read ''1'')"
proof -
  have h: "is_sep (CHR ''/'')" "\<not> sublist ''node_modules'' ''/app''"
    by (auto simp: is_sep_def dest: sublist_length_le)
  show ?thesis using h bundle_name_node_modules_end [OF h] by simp
qed

subsection \<open>Properties of the dynamic group's name function\<close>

lemma mt_re_dynamic_prefix:
  "mt re_dynamic s p c =
     (if node_modules_at s p
      then mt (Seq (Group 1 (LazyStar AnyChar)) (Seq (Cls path_sep)
             (Seq (Group 2 (LazyStar AnyChar)) (Group 3 (Alt (Cls path_sep) Eol))))) s (p + 14) c
      else [])"
proof -
  have l: "length ''node_modules'' = 12" by simp
  have e: "Suc p + 12 = p + 13" "Suc (p + 13) = p + 14" by simp_all
  show ?thesis
    unfolding re_dynamic_def mt_Seq_Cls mt_Seq_Lit l e node_modules_at_def
    using take_drop_Suc_length [of p s] by (auto simp del: mt.simps)
qed

text \<open>A match of the dynamic pattern needs a separator after the first segment.\<close>

lemma matches_at_re_dynamic_sep:
  assumes "matches_at re_dynamic s p"
  shows "node_modules_at s p \<and> (\<exists>q. p + 14 \<le> q \<and> q < length s \<and> is_sep (s ! q))"
proof -
  let ?r = "Seq (Cls path_sep) (Seq (Group 2 (LazyStar AnyChar)) (Group 3 (Alt (Cls path_sep) Eol)))"
  have nm: "node_modules_at s p"
  proof (rule ccontr)
    assume "\<not> node_modules_at s p"
    then have "mt re_dynamic s p Map.empty = []" by (simp only: mt_re_dynamic_prefix if_False)
    with assms show False by contradiction
  qed
  then have "mt (Seq (Group 1 (LazyStar AnyChar)) ?r) s (p + 14) Map.empty \<noteq> []"
    using assms by (simp only: mt_re_dynamic_prefix if_True not_False_eq_True)
  then obtain j where j: "j \<in> set (cls_span AnyChar (drop (p + 14) s) (p + 14))"
      "mt ?r s j (Map.empty(1 \<mapsto> (p + 14, j))) \<noteq> []"
    by (simp only: mt_Seq_Group_LazyStar concat_map_eq_Nil_iff) blast
  from j(2) have "j < length s \<and> is_sep (s ! j)"
    by (auto simp only: mt_Seq_Cls cls_match_path_sep split: if_splits)
  moreover have "p + 14 \<le> j" using cls_span_bounds [OF j(1)] by simp
  ultimately show ?thesis using nm by blast
qed

lemma append_tail_no_sep:
  assumes "\<forall>x\<in>set pkg. \<not> is_sep x" and "length u \<le> q" and "q < length (u @ pkg)"
  shows "\<not> is_sep ((u @ pkg) ! q)"
proof -
  have "q - length u < length pkg" using assms(2,3) by simp
  then have "pkg ! (q - length u) \<in> set pkg" by (rule nth_mem)
  then show ?thesis using assms(1,2) by (simp add: nth_append)
qed

text \<open>
  C6 (a defect): for a module at the root of an unscoped package, whose context is
  \<open>pre/node_modules/pkg\<close> with no separator after \<open>pkg\<close> (for instance
  \<open>node_modules/lodash/lodash.js\<close>), the dynamic pattern has no second segment
  to match, \<open>match\<close> returns \<open>null\<close> and \<open>dynamic.name\<close> throws a \<open>TypeError\<close>.
\<close>

theorem dynamic_name_package_root:
  assumes "is_sep a" and "is_sep b" and "\<not> sublist ''node_modules'' pre"
    and "\<forall>x\<in>set pkg. \<not> is_sep x"
  shows "dynamic_name (pre @ a # ''node_modules'' @ b # pkg) = Inl (null_read ''2'')"
proof -
  let ?s = "pre @ a # ''node_modules'' @ b # pkg"
  have "\<not> matches_at re_dynamic ?s p" for p
  proof
    assume "matches_at re_dynamic ?s p"
    then have nm: "node_modules_at ?s p"
      and "\<exists>q. p + 14 \<le> q \<and> q < length ?s \<and> is_sep (?s ! q)"
      using matches_at_re_dynamic_sep by blast+
    then obtain q where q: "p + 14 \<le> q" "q < length ?s" "is_sep (?s ! q)" by blast
    have "\<not> p < length pre" using no_node_modules_before [OF assms(1,3)] nm by blast
    then have "length pre + 14 \<le> q" using q(1) by linarith
    moreover have "?s = (pre @ a # ''node_modules'' @ [b]) @ pkg" by simp
    ultimately show False using q(2,3) append_tail_no_sep [OF assms(4), of "pre @ a # ''node_modules'' @ [b]" q]
      by simp
  qed
  then have "js_exec re_dynamic ?s = None" by (simp add: js_exec_def exec_at_None_iff)
  then show ?thesis by (simp add: dynamic_name_def)
qed

lemma dynamic_name_package_root_witness:
  "is_sep (CHR ''/'') \<and> \<not> sublist ''node_modules'' ''/app'' \<and>
   dynamic_name ''/app/node_modules/lodash'' = Inl (null_read ''2'')"
proof -
  have h: "is_sep (CHR ''/'')" "\<not> sublist ''node_modules'' ''/app''" "\<forall>x\<in>set ''lodash''. \<not> is_sep x"
    by (auto simp: is_sep_def dest: sublist_length_le)
  show ?thesis using h dynamic_name_package_root [OF h(1) h(1) h(2) h(3)] by simp
qed

lemma drop_Suc_length_append: "drop (Suc (length u)) (u @ x # ys) = ys"
  by (induction u) auto

lemma pkg_seg_eq:
  assumes "drop j s = seg @ rest" and "\<forall>x\<in>set seg. \<not> is_sep x" and "rest = [] \<or> is_sep (hd rest)"
  shows "pkg_seg s j = seg"
  using assms by (cases rest) (auto simp: pkg_seg_def takeWhile_append2)

lemma js_exec_first:
  assumes "mt r s q Map.empty = (e, d) # zs" and "q \<le> length s" and "\<forall>p<q. \<not> matches_at r s p"
  shows "js_exec r s = Some \<lparr>m_index = q, m_end = e, m_caps = d\<rparr>"
proof -
  have "find (matches_at r s) [0..<Suc (length s)] = Some q"
    using assms by (intro find_upt_first) simp_all
  then show ?thesis using assms(1) by (simp add: js_exec_def exec_at_find)
qed

text \<open>
  C5: on a path \<open>pre/node_modules/p1/p2\<close> followed by the end or a separator
  (\<open>pre\<close> without \<open>node_modules\<close>, \<open>p1\<close> and \<open>p2\<close> without separators or line
  breaks), \<open>dynamic.name\<close> is \<open>app.p2.dynamic\<close>: the first subdirectory of the
  package (or, for a scoped package, the package name after the scope).
\<close>

theorem dynamic_name_path:
  assumes "is_sep a" and "is_sep b" and "is_sep c" and "\<not> sublist ''node_modules'' pre"
    and "\<forall>x\<in>set p1. \<not> is_sep x \<and> \<not> line_term x" and "\<forall>x\<in>set p2. \<not> is_sep x \<and> \<not> line_term x"
    and "rest = [] \<or> is_sep (hd rest)"
  shows "dynamic_name (pre @ a # ''node_modules'' @ b # p1 @ c # p2 @ rest) =
           Inr (''app.'' @ p2 @ ''.dynamic'')"
proof -
  let ?s = "pre @ a # ''node_modules'' @ b # p1 @ c # p2 @ rest"
  let ?j = "length pre + 14" let ?k = "length pre + 14 + length p1"
  let ?j2 = "Suc (length pre + 14 + length p1)" let ?k2 = "Suc (length pre + 14 + length p1) + length p2"
  let ?stop = "Group 3 (Alt (Cls path_sep) Eol)"
  let ?r2 = "Seq (Group 2 (LazyStar AnyChar)) ?stop" let ?r = "Seq (Cls path_sep) ?r2"
  let ?c1 = "Map.empty(1 \<mapsto> (?j, ?k))" let ?c2 = "Map.empty(1 \<mapsto> (?j, ?k), 2 \<mapsto> (?j2, ?k2))"
  have split: "?s = (pre @ a # ''node_modules'' @ b # p1) @ c # p2 @ rest" by simp
  have seg1: "pkg_seg ?s ?j = p1"
    by (rule pkg_seg_eq [where rest = "c # p2 @ rest"]) (use assms in simp_all)
  have d2: "drop ?j2 ?s = p2 @ rest"
    using drop_Suc_length_append [of "pre @ a # ''node_modules'' @ b # p1" c "p2 @ rest"] by simp
  have seg2: "pkg_seg ?s ?j2 = p2"
    by (rule pkg_seg_eq [OF d2]) (use assms in simp_all)
  have lt1: "\<forall>x\<in>set (pkg_seg ?s ?j). \<not> line_term x" using seg1 assms(5) by simp
  have lt2: "\<forall>x\<in>set (pkg_seg ?s ?j2). \<not> line_term x" using seg2 assms(6) by simp
  have k: "?k < length ?s \<and> ?s ! ?k = c"
    by (subst split)+ (simp add: nth_append)
  have e1: "mt re_dynamic ?s (length pre) Map.empty = mt (Seq (Group 1 (LazyStar AnyChar)) ?r) ?s ?j Map.empty"
    using node_modules_at_path [OF assms(1,2)] by (simp only: mt_re_dynamic_prefix if_True)
  obtain ys where e2: "mt (Seq (Group 1 (LazyStar AnyChar)) ?r) ?s ?j Map.empty = mt ?r ?s ?k ?c1 @ ys"
    using lazy_seg_ok [OF fails_off_sep_Cls [of ?r2] lt1, of 1 Map.empty] unfolding seg1 by blast
  have e3: "mt ?r ?s ?k ?c1 = mt ?r2 ?s ?j2 ?c1"
    using k assms(3) by (simp only: mt_Seq_Cls cls_match_path_sep) simp
  obtain ys2 where e4: "mt ?r2 ?s ?j2 ?c1 = mt ?stop ?s ?k2 ?c2 @ ys2"
    using lazy_seg_ok [OF fails_off_sep_stop [of 3] lt2, of 2 ?c1] unfolding seg2 by blast
  have j2: "?j2 \<le> length ?s" by simp
  obtain e d zs where e5: "mt ?stop ?s ?k2 ?c2 = (e, d) # zs" and d: "\<forall>n. n \<noteq> 3 \<longrightarrow> d n = ?c2 n"
    using stop_head [OF j2, of 3 ?c2] unfolding seg2 by blast
  have hd: "mt re_dynamic ?s (length pre) Map.empty = (e, d) # (zs @ ys2 @ ys)"
    using e1 e2 e3 e4 e5 by simp
  have before: "\<forall>p<length pre. \<not> matches_at re_dynamic ?s p"
    using no_node_modules_before [OF assms(1,4)] matches_at_re_dynamic_sep by blast
  have ex: "js_exec re_dynamic ?s = Some \<lparr>m_index = length pre, m_end = e, m_caps = d\<rparr>"
    using js_exec_first [OF hd _ before] by simp
  have "d 2 = Some (?j2, ?k2)" using d by simp
  then have "js_group ?s \<lparr>m_index = length pre, m_end = e, m_caps = d\<rparr> 2 = Some p2"
    using substr_pkg_seg [of ?s ?j2] seg2 by (simp add: js_group_def)
  then show ?thesis using ex by (simp add: dynamic_name_def)
qed

lemma dynamic_name_path_witness:
  "is_sep (CHR ''/'') \<and> \<not> sublist ''node_modules'' ''/x'' \<and>
   dynamic_name ''/x/node_modules/foo/bar'' = Inr ''app.bar.dynamic''"
proof -
  have h: "is_sep (CHR ''/'')" "\<not> sublist ''node_modules'' ''/x''"
    "\<forall>x\<in>set ''foo''. \<not> is_sep x \<and> \<not> line_term x" "\<forall>x\<in>set ''bar''. \<not> is_sep x \<and> \<not> line_term x"
    "([] :: string) = [] \<or> is_sep (hd [])"
    by (auto simp: is_sep_def line_term_def dest: sublist_length_le)
  show ?thesis using h dynamic_name_path [OF h(1) h(1) h(1) h(2) h(3) h(4) h(5)] by simp
qed

end
