(* ===== verification/HtmlPlugin.thy ===== *)
theory HtmlPlugin
  imports ChunkRules
begin

text \<open>
  The two functions the configuration passes to \<open>HtmlWebpackPlugin\<close> in
  \<open>src/index.js\<close>: \<open>chunksSortMode\<close> (lines 209--222), a comparator that ranks a
  chunk by the position of the first dot-separated part of its first name in a
  fixed table (\<open>indexOf\<close>, so -1 for a part not in the table), and
  \<open>templateParameters\<close> (lines 224--231), which lists the emitted assets whose name
  contains \<open>.dynamic.\<close>, prefixed with \<open>publicPath\<close>. The plugin sorts the chunks
  with \<open>Array.prototype.sort\<close>. The lemmas show that the comparator is consistent,
  that sorting with it is the stable sort by rank, and what rank the chunk names of
  the classification table receive.
\<close>

subsection \<open>chunksSortMode\<close>

text \<open>A chunk as the comparator sees it: only \<open>chunk.names\<close> is read.\<close>

record chunk =
  names :: "string list"

definition chunk_order :: "string list" where
  "chunk_order = [''polyfill'', ''lib'', ''antv'', ''component'', ''app'', ''main'']"

text \<open>\<open>chunk.names[0].split('.')[0]\<close>: \<open>undefined.split\<close> throws for a chunk without names.\<close>

definition chunk_prefix :: "chunk \<Rightarrow> string js_result" where
  "chunk_prefix c =
     (case names c of
        [] \<Rightarrow> Inl (TypeError ''Cannot read properties of undefined (reading split)'')
      | n # _ \<Rightarrow> Inr (hd (js_split CHR ''.'' n)))"

definition chunks_sort_mode :: "chunk js_comparator" where
  "chunks_sort_mode chunk1 chunk2 =
     (case chunk_prefix chunk1 of
        Inl e \<Rightarrow> Inl e
      | Inr p1 \<Rightarrow>
          (case chunk_prefix chunk2 of
             Inl e \<Rightarrow> Inl e
           | Inr p2 \<Rightarrow> Inr (js_index_of chunk_order p1 - js_index_of chunk_order p2)))"

text \<open>The rank the comparator subtracts.\<close>

definition chunk_rank :: "chunk \<Rightarrow> int" where
  "chunk_rank c = js_index_of chunk_order (takeWhile (\<lambda>x. x \<noteq> CHR ''.'') (hd (names c)))"

subsection \<open>templateParameters\<close>

text \<open>
  \<open>compilation.assets\<close> as the list of its entries in property order (the order
  \<open>Object.keys\<close> returns for asset names, which are not array indices).
\<close>

record compilation =
  assets :: "(string \<times> string) list"

record template_params =
  prefetchAssets :: "string list"

definition re_dot_dynamic :: regex where    \<comment> \<open>\<open>/\.dynamic\./\<close>\<close>
  "re_dot_dynamic = Lit ''.dynamic.''"

definition template_parameters :: "string \<Rightarrow> compilation \<Rightarrow> template_params" where
  "template_parameters publicPath compilation =
     \<lparr>prefetchAssets =
        map (\<lambda>item. publicPath @ item)
          (filter (\<lambda>item. js_test re_dot_dynamic item) (map fst (assets compilation)))\<rparr>"

subsection \<open>The comparator on named chunks\<close>

lemma chunk_prefix_Cons: "names c = n # ns \<Longrightarrow> chunk_prefix c = Inr (takeWhile (\<lambda>x. x \<noteq> CHR ''.'') n)"
  by (simp add: chunk_prefix_def)

lemma chunks_sort_mode_rank:
  "names a \<noteq> [] \<Longrightarrow> names b \<noteq> [] \<Longrightarrow> chunks_sort_mode a b = Inr (chunk_rank a - chunk_rank b)"
  by (auto simp: chunks_sort_mode_def chunk_rank_def chunk_prefix_def neq_Nil_conv)

lemma key_comparator_on_chunks:
  "\<forall>c\<in>set cs. names c \<noteq> [] \<Longrightarrow> key_comparator_on (set cs) chunk_rank chunks_sort_mode"
  by (simp add: key_comparator_on_def chunks_sort_mode_rank)

lemma chunk_rank_bounds: "-1 \<le> chunk_rank c \<and> chunk_rank c < 6"
  using js_index_of_bounds [of chunk_order] by (simp add: chunk_rank_def chunk_order_def)

lemma chunk_rank_Cons:
  "chunk_rank \<lparr>names = n # ns\<rparr> = js_index_of chunk_order (takeWhile (\<lambda>x. x \<noteq> CHR ''.'') n)"
  by (simp add: chunk_rank_def)

subsection \<open>Properties of the chunk order\<close>

text \<open>
  C8: as long as every chunk has a name, sorting with \<open>chunksSortMode\<close> is the
  stable sort of the chunks by the table position of their name's first part.
\<close>

theorem chunks_sort_refines:
  "\<forall>c\<in>set cs. names c \<noteq> [] \<Longrightarrow> js_sort chunks_sort_mode cs = Inr (sort_key chunk_rank cs)"
  by (rule js_sort_key_comparator [OF key_comparator_on_chunks])

lemma chunks_sort_refines_witness:
  "js_sort chunks_sort_mode [\<lparr>names = [''main'']\<rparr>, \<lparr>names = [''lib.core'']\<rparr>] =
     Inr (sort_key chunk_rank [\<lparr>names = [''main'']\<rparr>, \<lparr>names = [''lib.core'']\<rparr>])"
proof -
  have h: "\<forall>c\<in>set [\<lparr>names = [''main'']\<rparr>, \<lparr>names = [''lib.core'']\<rparr>]. names c \<noteq> []" by simp
  show ?thesis using h chunks_sort_refines [OF h] by simp
qed

text \<open>
  C9: on named chunks the comparator is consistent in the sense that
  \<open>Array.prototype.sort\<close> requires: it returns 0 on equal arguments, is
  antisymmetric in sign and transitive, so the sort order is determined.
\<close>

theorem chunks_sort_mode_consistent:
  assumes "names a \<noteq> []" and "names b \<noteq> []" and "names c \<noteq> []"
  shows "chunks_sort_mode a a = Inr 0 \<and>
         (\<exists>x. chunks_sort_mode a b = Inr x \<and> chunks_sort_mode b a = Inr (- x)) \<and>
         (\<forall>x y. chunks_sort_mode a b = Inr x \<longrightarrow> chunks_sort_mode b c = Inr y \<longrightarrow>
            x \<le> 0 \<longrightarrow> y \<le> 0 \<longrightarrow> (\<exists>z. chunks_sort_mode a c = Inr z \<and> z \<le> 0))"
  using assms by (simp add: chunks_sort_mode_rank)

lemma chunks_sort_mode_consistent_witness:
  "names \<lparr>names = [''app.x.dynamic'']\<rparr> \<noteq> [] \<and> names \<lparr>names = [''polyfill'']\<rparr> \<noteq> [] \<and>
   names \<lparr>names = [''main'']\<rparr> \<noteq> [] \<and>
   chunks_sort_mode \<lparr>names = [''app.x.dynamic'']\<rparr> \<lparr>names = [''app.x.dynamic'']\<rparr> = Inr 0 \<and>
   (\<exists>x. chunks_sort_mode \<lparr>names = [''app.x.dynamic'']\<rparr> \<lparr>names = [''polyfill'']\<rparr> = Inr x \<and>
        chunks_sort_mode \<lparr>names = [''polyfill'']\<rparr> \<lparr>names = [''app.x.dynamic'']\<rparr> = Inr (- x))"
proof -
  have h: "names \<lparr>names = [''app.x.dynamic'']\<rparr> \<noteq> []" "names \<lparr>names = [''polyfill'']\<rparr> \<noteq> []"
    "names \<lparr>names = [''main'']\<rparr> \<noteq> []" by simp_all
  show ?thesis using h chunks_sort_mode_consistent [OF h] by blast
qed

text \<open>
  C10: a chunk without names makes the comparator read \<open>undefined.split\<close>: the
  sort of any two chunks one of which has no name throws a \<open>TypeError\<close>.
\<close>

theorem chunks_sort_nameless:
  assumes "names a = []"
  shows "js_sort chunks_sort_mode [b, a] =
           Inl (TypeError ''Cannot read properties of undefined (reading split)'')"
  using assms by (simp add: js_sort_def chunks_sort_mode_def chunk_prefix_def split: list.splits)

lemma chunks_sort_nameless_witness:
  "names \<lparr>names = []\<rparr> = [] \<and>
   js_sort chunks_sort_mode [\<lparr>names = [''main'']\<rparr>, \<lparr>names = []\<rparr>] =
     Inl (TypeError ''Cannot read properties of undefined (reading split)'')"
proof -
  have h: "names \<lparr>names = []\<rparr> = []" by simp
  show ?thesis using h chunks_sort_nameless [OF h] by blast
qed

subsection \<open>Properties of the prefetch list\<close>

lemma js_test_re_dot_dynamic [simp]: "js_test re_dot_dynamic item \<longleftrightarrow> sublist ''.dynamic.'' item"
  by (simp add: re_dot_dynamic_def js_test_Lit)

lemma prefetch_member:
  "(item, a) \<in> set (assets compilation) \<Longrightarrow> sublist ''.dynamic.'' item \<Longrightarrow>
     publicPath @ item \<in> set (prefetchAssets (template_parameters publicPath compilation))"
  by (force simp: template_parameters_def)

text \<open>
  C11: \<open>templateParameters\<close> returns, in asset order, \<open>publicPath\<close> followed by
  the name of each asset whose name contains \<open>.dynamic.\<close>, and nothing else.
\<close>

theorem template_parameters_prefetch:
  "prefetchAssets (template_parameters publicPath compilation) =
     map (\<lambda>item. publicPath @ item) (filter (sublist ''.dynamic.'') (map fst (assets compilation)))"
  by (simp add: template_parameters_def)

end
