(* ===== verification/Config.thy ===== *)
theory Config
  imports CacheGroups HtmlPlugin
begin

text \<open>
  The exported factory of \<open>src/index.js\<close> (lines 39--508): the options object is
  destructured with defaults (a missing property, \<open>undefined\<close>, takes the default;
  a missing options argument makes the destructuring throw), and the result is
  one configuration object whose parts depend on the options: output file names,
  mode and minimisation, the plugin list, the loader rules and the dev-server
  settings. It is merged with \<open>customConfig\<close> by \<open>webpack-merge\<close> and, when
  \<open>needSpeedMeasure\<close> is set, wrapped by \<open>SpeedMeasureWebpackPlugin\<close>; both
  libraries are external, so the model keeps the merge and the wrapping as
  constructors of the result. Loader and plugin options are kept as the names and
  literal values the source writes, flattened to key/value strings.
\<close>

subsection \<open>Options\<close>

text \<open>\<open>None\<close> is a property that is \<open>undefined\<close>; objects are lists of entries.\<close>

type_synonym js_object = "(string \<times> string) list"

record options =
  opt_isProduction :: "bool option"
  opt_needAnalyzer :: "bool option"
  opt_needSpeedMeasure :: "bool option"
  opt_tinifyApiKey :: "string option"
  opt_entry :: "string option"
  opt_template :: "string option"
  opt_favicon :: "string option"
  opt_publicPath :: "string option"
  opt_alias :: "js_object option"
  opt_globalConstants :: "js_object option"
  opt_port :: "int option"
  opt_proxy :: "js_object option"
  opt_host :: "string option"

record settings =
  isProduction :: bool
  needAnalyzer :: bool
  needSpeedMeasure :: bool
  tinifyApiKey :: string
  entry :: string
  template :: string
  favicon :: string
  publicPath :: string
  webpackAlias :: js_object
  globalConstants :: js_object
  port :: int
  proxy :: js_object
  host :: string

definition js_default :: "'a option \<Rightarrow> 'a \<Rightarrow> 'a" where
  "js_default v d = (case v of None \<Rightarrow> d | Some x \<Rightarrow> x)"

text \<open>
  The options argument as JavaScript passes it: omitted (\<open>undefined\<close>), \<open>null\<close>, or
  an object. Destructuring either of the first two throws.
\<close>

datatype 'a js_arg = Undefined | Null | Obj 'a

definition destructure_options :: "options js_arg \<Rightarrow> settings js_result" where
  "destructure_options opts =
     (case opts of
        Undefined \<Rightarrow> Inl (TypeError ''Cannot destructure property isProduction of options as it is undefined'')
      | Null \<Rightarrow> Inl (TypeError ''Cannot destructure property isProduction of options as it is null'')
      | Obj opt \<Rightarrow> Inr
          \<lparr>isProduction = js_default (opt_isProduction opt) False,
           needAnalyzer = js_default (opt_needAnalyzer opt) False,
           needSpeedMeasure = js_default (opt_needSpeedMeasure opt) False,
           tinifyApiKey = js_default (opt_tinifyApiKey opt) [],
           entry = js_default (opt_entry opt) ''./src/index.js'',
           template = js_default (opt_template opt) ''src/index.ejs'',
           favicon = js_default (opt_favicon opt) [],
           publicPath = js_default (opt_publicPath opt) ''/'',
           webpackAlias = js_default (opt_alias opt) [],
           globalConstants = js_default (opt_globalConstants opt) [],
           port = js_default (opt_port opt) 8001,
           proxy = js_default (opt_proxy opt) [],
           host = js_default (opt_host opt) ''0.0.0.0''\<rparr>)"

subsection \<open>path.resolve\<close>

text \<open>
  \<open>path.resolve(base, rel)\<close> for an absolute base and a relative segment without
  \<open>..\<close>: the base without trailing separators, a slash, the segment without a
  leading \<open>./\<close>.
\<close>

definition path_resolve :: "string \<Rightarrow> string \<Rightarrow> string" where
  "path_resolve base rel =
     rev (dropWhile (\<lambda>x. x = CHR ''/'') (rev base)) @ ''/'' @
     (if take 2 rel = ''./'' then drop 2 rel else rel)"

subsection \<open>The configuration object\<close>

record output_config =
  out_path :: string
  out_publicPath :: string
  out_filename :: string
  out_libraryTarget :: string

datatype js_number = Num int | Infinity

record split_chunks =
  sc_chunks :: string
  sc_maxInitialRequests :: js_number
  sc_minSize :: int
  sc_cacheGroups :: "cache_group list"

record optimization =
  minimize :: bool
  splitChunks :: split_chunks

record resolve_config =
  res_alias :: js_object
  res_extensions :: "string list"

datatype use_entry = UseName string | UseLoader string js_object

record module_rule =
  mr_test :: regex
  mr_use :: "use_entry list"
  mr_include :: "string list option"

record dev_server =
  ds_port :: int
  ds_host :: string
  ds_historyApiFallback :: bool
  ds_open :: bool
  ds_hot :: bool
  ds_inline :: bool
  ds_overlay_errors :: bool
  ds_proxy :: js_object

datatype plugin =
    DefinePlugin js_object
  | HtmlWebpackPlugin string string string
  | MiniCssExtractPlugin string
  | ContextReplacementPlugin regex regex
  | LodashModuleReplacementPlugin "string list"
  | OptimizeCssAssetsPlugin
  | BundleAnalyzerPlugin

record config =
  cfg_entry :: string
  cfg_output :: output_config
  cfg_mode :: "string option"
  cfg_stats :: "string option"
  cfg_optimization :: optimization
  cfg_resolve :: resolve_config
  cfg_plugins :: "plugin list"
  cfg_rules :: "module_rule list"
  cfg_devServer :: dev_server

subsection \<open>Regular expressions of the loader rules and plugins\<close>

definition re_less :: regex where          \<comment> \<open>\<open>/\.less$/\<close>\<close>
  "re_less = Seq (Lit ''.less'') Eol"

definition re_css :: regex where           \<comment> \<open>\<open>/\.css$/\<close>\<close>
  "re_css = Seq (Lit ''.css'') Eol"

definition re_jsx :: regex where           \<comment> \<open>\<open>/\.jsx?$/\<close>\<close>
  "re_jsx = Seq (Lit ''.js'') (Seq (Opt (Lit ''x'')) Eol)"

definition re_ts :: regex where            \<comment> \<open>\<open>/\.(tsx|ts)?$/\<close>\<close>
  "re_ts = Seq (Lit ''.'') (Seq (Opt (Group 1 (Alt (Lit ''tsx'') (Lit ''ts'')))) Eol)"

definition re_svg :: regex where           \<comment> \<open>\<open>/\.svg$/\<close>\<close>
  "re_svg = Seq (Lit ''.svg'') Eol"

definition re_image :: regex where         \<comment> \<open>\<open>/\.(png|jpe?g)$/\<close>\<close>
  "re_image =
     Seq (Lit ''.'') (Seq (Group 1 (Alt (Lit ''png'') (Seq (Lit ''jp'') (Seq (Opt (Lit ''e'')) (Lit ''g''))))) Eol)"

definition re_font :: regex where          \<comment> \<open>\<open>/\.(woff|woff2|eot|ttf|gif)$/\<close>\<close>
  "re_font =
     Seq (Lit ''.'') (Seq (Group 1 (Alt (Lit ''woff'') (Alt (Lit ''woff2'') (Alt (Lit ''eot'')
       (Alt (Lit ''ttf'') (Lit ''gif'')))))) Eol)"

definition re_download :: regex where      \<comment> \<open>\<open>/\.(txt|xlsx|xls)$/\<close>\<close>
  "re_download = Seq (Lit ''.'') (Seq (Group 1 (Alt (Lit ''txt'') (Alt (Lit ''xlsx'') (Lit ''xls'')))) Eol)"

definition re_html :: regex where          \<comment> \<open>\<open>/\.(html)$/\<close>\<close>
  "re_html = Seq (Lit ''.'') (Seq (Group 1 (Lit ''html'')) Eol)"

definition re_moment_locale :: regex where \<comment> \<open>\<open>/moment[/\\]locale$/\<close>\<close>
  "re_moment_locale = Seq (Lit ''moment'') (Seq (Cls path_sep) (Seq (Lit ''locale'') Eol))"

definition re_locales :: regex where       \<comment> \<open>\<open>/en|zh-cn|zh-tw/\<close>\<close>
  "re_locales = Alt (Lit ''en'') (Alt (Lit ''zh-cn'') (Lit ''zh-tw''))"

subsection \<open>The parts of the configuration\<close>

definition output_filename :: "bool \<Rightarrow> string" where
  "output_filename production = (if production then ''[name].[chunkhash:8].js'' else ''[name].[hash:8].js'')"

definition css_filename :: "bool \<Rightarrow> string" where
  "css_filename production = (if production then ''[name].[chunkhash:8].css'' else ''[name].[hash:8].css'')"

definition lodash_feature_sets :: "string list" where
  "lodash_feature_sets = [''shorthands'', ''cloning'', ''currying'', ''caching'', ''collections'',
     ''exotics'', ''guards'', ''metadata'', ''deburring'', ''unicode'', ''chaining'', ''memoizing'',
     ''coercions'', ''flattening'', ''paths'', ''placeholders'']"

text \<open>
  The plugins array (lines 203--266). \<open>HtmlWebpackPlugin\<close> receives the template,
  the favicon and the two functions of \<open>HtmlPlugin\<close>; the only option value those
  functions close over is \<open>publicPath\<close>, kept as its third argument.
\<close>

definition plugins :: "settings \<Rightarrow> plugin list" where
  "plugins st =
     [DefinePlugin (globalConstants st),
      HtmlWebpackPlugin (template st) (favicon st) (publicPath st),
      MiniCssExtractPlugin (css_filename (isProduction st)),
      ContextReplacementPlugin re_moment_locale re_locales,
      LodashModuleReplacementPlugin lodash_feature_sets] @
     (if isProduction st then [OptimizeCssAssetsPlugin] else []) @
     (if needAnalyzer st then [BundleAnalyzerPlugin] else [])"

definition babel_plugins :: string where
  "babel_plugins = ''@babel/plugin-proposal-decorators{legacy},@babel/plugin-proposal-class-properties{loose},'' @
     ''@babel/plugin-proposal-export-default-from,import{antd,es,style},lodash''"

definition url_loader :: use_entry where
  "url_loader = UseLoader ''url-loader'' [(''limit'', ''100000'')]"

definition less_loader :: use_entry where
  "less_loader = UseLoader ''less-loader'' [(''javascriptEnabled'', ''true'')]"

text \<open>The rules array (lines 268--479), in order.\<close>

definition module_rules :: "string \<Rightarrow> settings \<Rightarrow> module_rule list" where
  "module_rules projectAbsolutePath st =
     [\<lparr>mr_test = re_less,
       mr_use = [if isProduction st then UseName ''mini-css-extract-plugin/loader'' else UseName ''style-loader'',
                 UseLoader ''css-loader'' [(''modules.localIdentName'', ''[name]__[local]___[hash:base64:5]''),
                                           (''importLoaders'', ''1'')],
                 less_loader],
       mr_include = Some [path_resolve projectAbsolutePath ''./src'', path_resolve projectAbsolutePath ''./demo'']\<rparr>,
      \<lparr>mr_test = re_less,
       mr_use = [if isProduction st then UseName ''mini-css-extract-plugin/loader''
                 else UseLoader ''style-loader'' [(''insert'', ''head'')],
                 UseName ''css-loader'', less_loader],
       mr_include = Some [path_resolve projectAbsolutePath ''./node_modules/antd'']\<rparr>,
      \<lparr>mr_test = re_css, mr_use = [UseName ''style-loader'', UseName ''thread-loader'', UseName ''css-loader''],
       mr_include = None\<rparr>,
      \<lparr>mr_test = re_jsx,
       mr_use = [UseName ''thread-loader'',
                 UseLoader ''babel-loader'' [(''presets'', ''@babel/preset-env,@babel/preset-react''),
                                             (''plugins'', babel_plugins)]],
       mr_include = Some [path_resolve projectAbsolutePath ''./src'', path_resolve projectAbsolutePath ''./demo'']\<rparr>,
      \<lparr>mr_test = re_ts,
       mr_use = [UseName ''thread-loader'',
                 UseLoader ''babel-loader''
                   [(''presets'', ''@babel/preset-env,@babel/preset-react,@babel/preset-typescript''),
                    (''plugins'', babel_plugins)]],
       mr_include = None\<rparr>,
      \<lparr>mr_test = re_svg,
       mr_use = [url_loader, UseLoader ''svgo-loader'' [(''plugins'', ''removeViewBox:false'')]],
       mr_include = None\<rparr>,
      \<lparr>mr_test = re_image,
       mr_use = url_loader #
         (if tinifyApiKey st \<noteq> [] then [UseLoader ''webpack-tinypng-loader'' [(''apikey'', tinifyApiKey st)]]
          else []),
       mr_include = None\<rparr>,
      \<comment> \<open>\<open>loader\<close>/\<open>options\<close> on the rule itself: a one-entry \<open>use\<close>\<close>
      \<lparr>mr_test = re_font, mr_use = [url_loader], mr_include = None\<rparr>,
      \<lparr>mr_test = re_download, mr_use = [UseLoader ''file-loader'' [(''outputPath'', ''assets'')]],
       mr_include = None\<rparr>,
      \<lparr>mr_test = re_html, mr_use = [UseLoader ''html-loader'' []], mr_include = None\<rparr>]"

definition dev_server_config :: "settings \<Rightarrow> dev_server" where
  "dev_server_config st =
     \<lparr>ds_port = port st, ds_host = host st, ds_historyApiFallback = True, ds_open = True,
      ds_hot = True, ds_inline = True, ds_overlay_errors = True, ds_proxy = proxy st\<rparr>"

text \<open>The first argument of \<open>merge\<close> (lines 57--498).\<close>

definition base_config :: "string \<Rightarrow> settings \<Rightarrow> config" where
  "base_config projectAbsolutePath st =
     \<lparr>cfg_entry = entry st,
      cfg_output = \<lparr>out_path = path_resolve projectAbsolutePath ''dist'', out_publicPath = publicPath st,
                    out_filename = output_filename (isProduction st), out_libraryTarget = ''umd''\<rparr>,
      cfg_mode = (if isProduction st then Some ''production'' else None),
      cfg_stats = (if isProduction st then Some ''minimal'' else None),
      cfg_optimization = \<lparr>minimize = isProduction st,
         splitChunks = \<lparr>sc_chunks = ''all'', sc_maxInitialRequests = Infinity, sc_minSize = 0,
                        sc_cacheGroups = cache_groups\<rparr>\<rparr>,
      cfg_resolve = \<lparr>res_alias = webpackAlias st,
         res_extensions = [''.wasm'', ''.mjs'', ''.js'', ''.json'', ''.jsx'', ''.ts'', ''.tsx'']\<rparr>,
      cfg_plugins = plugins st,
      cfg_rules = module_rules projectAbsolutePath st,
      cfg_devServer = dev_server_config st\<rparr>"

text \<open>
  The value returned by the factory: \<open>merge(base, customConfig)\<close>, wrapped by
  \<open>smwp.wrap\<close> when \<open>needSpeedMeasure\<close> holds. \<open>customConfig\<close> defaults to \<open>{}\<close>.
\<close>

datatype 'c custom_config = EmptyObject | Given 'c

datatype 'c factory_result = Merged config "'c custom_config" | SpeedMeasured "'c factory_result"

definition create_config :: "string \<Rightarrow> options js_arg \<Rightarrow> 'c option \<Rightarrow> 'c factory_result js_result" where
  "create_config projectAbsolutePath opts customConfig =
     (case destructure_options opts of
        Inl e \<Rightarrow> Inl e
      | Inr st \<Rightarrow>
          (let config = Merged (base_config projectAbsolutePath st)
                          (case customConfig of None \<Rightarrow> EmptyObject | Some c \<Rightarrow> Given c)
           in Inr (if needSpeedMeasure st then SpeedMeasured config else config)))"

subsection \<open>Which rules apply to a resource\<close>

text \<open>
  webpack applies every rule whose \<open>test\<close> matches the resource path and, when
  the rule has \<open>include\<close>, one of whose paths is a prefix of it.
\<close>

definition rule_applies :: "module_rule \<Rightarrow> path \<Rightarrow> bool" where
  "rule_applies r f \<longleftrightarrow>
     js_test (mr_test r) f \<and> (case mr_include r of None \<Rightarrow> True | Some ps \<Rightarrow> (\<exists>q\<in>set ps. prefix q f))"

definition applicable_rules :: "config \<Rightarrow> path \<Rightarrow> module_rule list" where
  "applicable_rules cfg f = filter (\<lambda>r. rule_applies r f) (cfg_rules cfg)"

text \<open>
  An executable check that two rules never apply to the same resource: their
  tests are anchored word sets none of which is a suffix of another, or their
  \<open>include\<close> lists have no two paths one of which is a prefix of the other.
\<close>

fun suffix_words :: "regex \<Rightarrow> string list option" where
  "suffix_words (Seq r Eol) = lits r"
| "suffix_words (Seq (Lit a) (Seq r Eol)) = map_option (map ((@) a)) (lits r)"
| "suffix_words _ = None"

definition words_parallel :: "string list \<Rightarrow> string list \<Rightarrow> bool" where
  "words_parallel us vs \<longleftrightarrow> (\<forall>u\<in>set us. \<forall>v\<in>set vs. \<not> suffix u v \<and> \<not> suffix v u)"

definition paths_parallel :: "string list option \<Rightarrow> string list option \<Rightarrow> bool" where
  "paths_parallel a b \<longleftrightarrow>
     (case (a, b) of
        (Some ps, Some qs) \<Rightarrow> (\<forall>u\<in>set ps. \<forall>v\<in>set qs. \<not> prefix u v \<and> \<not> prefix v u)
      | _ \<Rightarrow> False)"

definition rules_exclusive :: "module_rule \<Rightarrow> module_rule \<Rightarrow> bool" where
  "rules_exclusive r1 r2 \<longleftrightarrow>
     (case (suffix_words (mr_test r1), suffix_words (mr_test r2)) of
        (Some us, Some vs) \<Rightarrow> words_parallel us vs
      | _ \<Rightarrow> False) \<or> paths_parallel (mr_include r1) (mr_include r2)"

definition empty_options :: options where
  "empty_options =
     \<lparr>opt_isProduction = None, opt_needAnalyzer = None, opt_needSpeedMeasure = None,
      opt_tinifyApiKey = None, opt_entry = None, opt_template = None, opt_favicon = None,
      opt_publicPath = None, opt_alias = None, opt_globalConstants = None, opt_port = None,
      opt_proxy = None, opt_host = None\<rparr>"

definition source_extensions :: "string list" where
  "source_extensions = [''.less'', ''.css'', ''.js'', ''.jsx'', ''.ts'', ''.tsx'', ''.svg'', ''.png'',
     ''.jpg'', ''.jpeg'', ''.woff'', ''.woff2'', ''.eot'', ''.ttf'', ''.gif'', ''.txt'', ''.xlsx'',
     ''.xls'', ''.html'']"

subsection \<open>The thread-loader warm-up\<close>

text \<open>The modules \<open>threadLoader.warmup\<close> preloads into the worker pool (lines 12--18).\<close>

definition thread_loader_warmup :: "string list" where
  "thread_loader_warmup = [''babel-loader'', ''@babel/preset-env'', ''@babel/preset-react'', ''css-loader'']"

subsection \<open>Emitted file names\<close>

text \<open>
  webpack's substitution of \<open>[name]\<close>, \<open>[chunkhash:8]\<close> and \<open>[hash:8]\<close> in a file
  name template, for a chunk name, the chunk's hash and the compilation's hash.
  Chunks that are not entries use \<open>output.chunkFilename\<close>, which webpack defaults
  to \<open>output.filename\<close> when that contains \<open>[name]\<close>, as it does here.
\<close>

function render_template :: "string \<Rightarrow> string \<Rightarrow> string \<Rightarrow> string \<Rightarrow> string" where
  "render_template n ch h [] = []"
| "render_template n ch h (c # cs) =
     (if c = CHR ''['' \<and> prefix ''name]'' cs then n @ render_template n ch h (drop 5 cs)
      else if c = CHR ''['' \<and> prefix ''chunkhash:8]'' cs then take 8 ch @ render_template n ch h (drop 12 cs)
      else if c = CHR ''['' \<and> prefix ''hash:8]'' cs then take 8 h @ render_template n ch h (drop 7 cs)
      else c # render_template n ch h cs)"
  by pat_completeness auto
termination by (relation "measure (\<lambda>(n, ch, h, s). length s)") auto

subsection \<open>The loader tests\<close>

lemma suffix_words_js_test:
  "suffix_words r = Some ws \<Longrightarrow> js_test r f \<longleftrightarrow> (\<exists>w\<in>set ws. suffix w f)"
  by (induction r rule: suffix_words.induct) (auto simp: js_test_lits_Eol js_test_Lit_lits_Eol)


subsection \<open>Rules that never apply together\<close>

lemma words_parallel_exclusive:
  assumes "words_parallel us vs" "\<exists>u\<in>set us. suffix u f" "\<exists>v\<in>set vs. suffix v f"
  shows False
  using assms suffix_same_cases unfolding words_parallel_def by blast

lemma paths_parallel_exclusive:
  assumes "paths_parallel a b"
    "case a of None \<Rightarrow> True | Some ps \<Rightarrow> \<exists>q\<in>set ps. prefix q f"
    "case b of None \<Rightarrow> True | Some ps \<Rightarrow> \<exists>q\<in>set ps. prefix q f"
  shows False
proof -
  obtain ps qs where "a = Some ps" "b = Some qs"
    and par: "\<forall>u\<in>set ps. \<forall>v\<in>set qs. \<not> prefix u v \<and> \<not> prefix v u"
    using assms(1) by (auto simp: paths_parallel_def split: option.splits)
  with assms(2,3) obtain u v where "u \<in> set ps" "prefix u f" "v \<in> set qs" "prefix v f" by auto
  with par prefix_same_cases show False by blast
qed

lemma rules_exclusive_sound:
  assumes "rules_exclusive r1 r2" "rule_applies r1 f" "rule_applies r2 f"
  shows False
proof -
  from assms(2,3) have t: "js_test (mr_test r1) f" "js_test (mr_test r2) f"
    and i: "case mr_include r1 of None \<Rightarrow> True | Some ps \<Rightarrow> \<exists>q\<in>set ps. prefix q f"
      "case mr_include r2 of None \<Rightarrow> True | Some ps \<Rightarrow> \<exists>q\<in>set ps. prefix q f"
    by (simp_all add: rule_applies_def)
  from assms(1) consider
      (words) us vs where "suffix_words (mr_test r1) = Some us" "suffix_words (mr_test r2) = Some vs"
        "words_parallel us vs"
    | (paths) "paths_parallel (mr_include r1) (mr_include r2)"
    by (auto simp: rules_exclusive_def split: option.splits)
  then show False
  proof cases
    case words
    then show False
      using words_parallel_exclusive t suffix_words_js_test by blast
  next
    case paths
    then show False using paths_parallel_exclusive i by blast
  qed
qed

lemma module_rules_exclusive: "sorted_wrt rules_exclusive (module_rules p st)"
  unfolding module_rules_def
  by (simp add: rules_exclusive_def words_parallel_def paths_parallel_def path_resolve_def
        suffix_to_prefix re_less_def re_css_def re_jsx_def re_ts_def re_svg_def re_image_def re_font_def
        re_download_def re_html_def)


lemma cfg_rules_base_config: "cfg_rules (base_config p st) = module_rules p st"
  by (simp add: base_config_def)

lemma module_rules_apply_exclusive:
  "sorted_wrt (\<lambda>r1 r2. \<not> (rule_applies r1 f \<and> rule_applies r2 f)) (module_rules p st)"
  by (rule sorted_wrt_mono_rel [OF _ module_rules_exclusive]) (blast dest: rules_exclusive_sound)

lemma js_test_rule_tests [simp]:
  "js_test re_less f \<longleftrightarrow> suffix ''.less'' f"
  "js_test re_css f \<longleftrightarrow> suffix ''.css'' f"
  "js_test re_jsx f \<longleftrightarrow> suffix ''.js'' f \<or> suffix ''.jsx'' f"
  "js_test re_ts f \<longleftrightarrow> suffix ''.'' f \<or> suffix ''.tsx'' f \<or> suffix ''.ts'' f"
  "js_test re_svg f \<longleftrightarrow> suffix ''.svg'' f"
  "js_test re_image f \<longleftrightarrow> suffix ''.png'' f \<or> suffix ''.jpg'' f \<or> suffix ''.jpeg'' f"
  "js_test re_font f \<longleftrightarrow> suffix ''.woff'' f \<or> suffix ''.woff2'' f \<or> suffix ''.eot'' f \<or>
     suffix ''.ttf'' f \<or> suffix ''.gif'' f"
  "js_test re_download f \<longleftrightarrow> suffix ''.txt'' f \<or> suffix ''.xlsx'' f \<or> suffix ''.xls'' f"
  "js_test re_html f \<longleftrightarrow> suffix ''.html'' f"
  by (simp_all add: suffix_words_js_test re_less_def re_css_def re_jsx_def re_ts_def re_svg_def
        re_image_def re_font_def re_download_def re_html_def)

subsection \<open>Properties of the loader rules\<close>

text \<open>
  C12: whatever the options, at most one loader rule of the configuration applies
  to any resource path, so no file is transformed by two loader chains.
\<close>

theorem loader_rules_exclusive: "length (applicable_rules (base_config p st) f) \<le> 1"
  unfolding applicable_rules_def cfg_rules_base_config
  by (rule length_filter_sorted_wrt [OF module_rules_apply_exclusive])

text \<open>
  C13: every file of the project's \<open>src\<close> directory with one of the handled
  extensions is transformed by exactly one loader rule.
\<close>

theorem source_file_one_rule:
  assumes "prefix (path_resolve p ''./src'') f" "ext \<in> set source_extensions" "suffix ext f"
  shows "length (applicable_rules (base_config p st) f) = 1"
proof -
  have "\<exists>r\<in>set (module_rules p st). rule_applies r f"
    using assms(2,3) unfolding source_extensions_def
    by (auto simp: module_rules_def rule_applies_def assms(1))
  then have "applicable_rules (base_config p st) f \<noteq> []"
    by (auto simp: applicable_rules_def base_config_def filter_empty_conv)
  moreover have "length (applicable_rules (base_config p st) f) \<le> 1"
    unfolding applicable_rules_def cfg_rules_base_config
    by (rule length_filter_sorted_wrt [OF module_rules_apply_exclusive])
  ultimately show ?thesis by (cases "applicable_rules (base_config p st) f") auto
qed


subsection \<open>Properties of the factory\<close>

theorem source_file_one_rule_witness:
  "prefix (path_resolve ''/app'' ''./src'') ''/app/src/main.jsx'' \<and> ''.jsx'' \<in> set source_extensions \<and>
   suffix ''.jsx'' ''/app/src/main.jsx'' \<and>
   length (applicable_rules (base_config ''/app'' (projr (destructure_options (Obj empty_options))))
     ''/app/src/main.jsx'') = 1"
  using source_file_one_rule [where p = "''/app''" and f = "''/app/src/main.jsx''" and ext = "''.jsx''"
      and st = "projr (destructure_options (Obj empty_options))"]
  by (simp add: path_resolve_def source_extensions_def suffix_to_prefix)

text \<open>
  C14: the factory throws exactly when the options argument is \<open>undefined\<close> or
  \<open>null\<close>, with the destructuring \<open>TypeError\<close> naming which; with any options object
  it returns a configuration. The JSDoc marks \<open>options\<close> as optional
  (\<open>{Object=}\<close>), but calling the factory without it throws.
\<close>

theorem create_config_throws:
  "create_config p opts c = Inl e \<longleftrightarrow>
     (opts = Undefined \<and> e = TypeError ''Cannot destructure property isProduction of options as it is undefined'') \<or>
     (opts = Null \<and> e = TypeError ''Cannot destructure property isProduction of options as it is null'')"
  by (cases opts) (auto simp: create_config_def destructure_options_def Let_def)

text \<open>
  C15: the production flag switches mode, stats, minimisation, the CSS optimiser,
  content-hashed JS and CSS file names and the CSS extraction loader together.
\<close>

theorem production_switches:
  "let cfg = base_config p st in
     (cfg_mode cfg = Some ''production'' \<longleftrightarrow> isProduction st) \<and>
     (cfg_stats cfg = Some ''minimal'' \<longleftrightarrow> isProduction st) \<and>
     (minimize (cfg_optimization cfg) \<longleftrightarrow> isProduction st) \<and>
     (OptimizeCssAssetsPlugin \<in> set (cfg_plugins cfg) \<longleftrightarrow> isProduction st) \<and>
     (sublist ''chunkhash'' (out_filename (cfg_output cfg)) \<longleftrightarrow> isProduction st) \<and>
     (MiniCssExtractPlugin ''[name].[chunkhash:8].css'' \<in> set (cfg_plugins cfg) \<longleftrightarrow> isProduction st) \<and>
     (hd (mr_use (hd (cfg_rules cfg))) = UseName ''mini-css-extract-plugin/loader'' \<longleftrightarrow> isProduction st)"
  by (cases "isProduction st")
     (simp_all add: base_config_def plugins_def output_filename_def css_filename_def module_rules_def
        sublist_Cons_right)

text \<open>
  C16: the bundle analyzer plugin is in the plugin list exactly when \<open>needAnalyzer\<close> is set.
\<close>

theorem plugins_analyzer:
  "BundleAnalyzerPlugin \<in> set (cfg_plugins (base_config p st)) \<longleftrightarrow> needAnalyzer st"
  by (simp add: base_config_def plugins_def)

text \<open>
  C17: the tinypng image loader is configured exactly when the API key is a
  non-empty string, and it receives that key.
\<close>

theorem tinypng_loader:
  "UseLoader ''webpack-tinypng-loader'' [(''apikey'', k)] \<in> set (concat (map mr_use (cfg_rules (base_config p st))))
     \<longleftrightarrow> tinifyApiKey st \<noteq> [] \<and> k = tinifyApiKey st"
  by (auto simp: base_config_def module_rules_def url_loader_def less_loader_def)

subsection \<open>The TypeScript rule\<close>

text \<open>
  C18: the \<open>?\<close> of \<open>/\.(tsx|ts)?$/\<close> makes the extension optional, so every resource
  path ending in a dot is handed to the TypeScript Babel rule, and to no other.
\<close>

theorem ts_rule_trailing_dot: "map mr_test (applicable_rules (base_config p st) (f @ ''.'')) = [re_ts]"
  by (simp add: applicable_rules_def base_config_def module_rules_def rule_applies_def suffix_to_prefix)

subsection \<open>File names and the HTML plugin\<close>

lemma render_output_filename:
  "render_template n ch h (output_filename production) =
     n @ ''.'' @ take 8 (if production then ch else h) @ ''.js''"
  by (simp add: output_filename_def)

lemma html_plugin_public_path:
  "HtmlWebpackPlugin t fv pp \<in> set (cfg_plugins (base_config p st)) \<Longrightarrow>
     pp = out_publicPath (cfg_output (base_config p st))"
  by (auto simp: base_config_def plugins_def)

end
