(* ===== verification/ModuleLoad.thy ===== *)
theory ModuleLoad
  imports Config
begin

text \<open>
  Loading \<open>src/index.js\<close> and calling its factory. Node evaluates a module's top
  level once, at its first \<open>require\<close>, and caches the export; later \<open>require\<close>s
  return the cached export without running the top level again. The top level
  of \<open>src/index.js\<close> (lines 1--18) requires the libraries and calls
  \<open>threadLoader.warmup\<close> with \<open>thread_loader_warmup\<close>, which starts the worker pool
  and loads those modules in it. The pool is the list of modules it has been told
  to load, in order. The exported factory can only be called once the module has
  been required. Each call records the value \<open>create_config\<close> returns.
  \<open>node_step\<close> is one event of a host program, \<open>None\<close> when the event is not
  possible, and \<open>reachable\<close> holds of the states a host program can produce.
\<close>

record node_state =
  loaded :: bool
  pool_warm :: "string list"
  results :: "js_object factory_result js_result list"

datatype event = Require | Call string "options js_arg" "js_object option"

definition initial_state :: node_state where
  "initial_state = \<lparr>loaded = False, pool_warm = [], results = []\<rparr>"

text \<open>The evaluation of the top level: the warm-up call, then the cached export.\<close>

definition load_index :: "node_state \<Rightarrow> node_state" where
  "load_index s = s\<lparr>pool_warm := pool_warm s @ thread_loader_warmup, loaded := True\<rparr>"

fun node_step :: "event \<Rightarrow> node_state \<Rightarrow> node_state option" where
  "node_step Require s = Some (if loaded s then s else load_index s)"
| "node_step (Call projectAbsolutePath opts customConfig) s =
     (if loaded s then Some (s\<lparr>results := results s @ [create_config projectAbsolutePath opts customConfig]\<rparr>)
      else None)"

inductive reachable :: "node_state \<Rightarrow> bool" where
  init: "reachable initial_state"
| step: "reachable s \<Longrightarrow> node_step e s = Some s' \<Longrightarrow> reachable s'"

fun_cases node_step_SomeE: "node_step e s = Some s'"

subsection \<open>Properties of loading\<close>

text \<open>
  C23: in every state a host program can reach, the warm-up has run exactly once
  if the module has been required and not at all otherwise, and no factory call
  has happened before the first \<open>require\<close>.
\<close>

theorem warmup_runs_once:
  "reachable s \<Longrightarrow>
     pool_warm s = (if loaded s then thread_loader_warmup else []) \<and> (\<not> loaded s \<longrightarrow> results s = [])"
proof (induction rule: reachable.induct)
  case init
  then show ?case by (simp add: initial_state_def)
next
  case (step s e s')
  from step.hyps(2) step.IH show ?case
    by (cases e) (auto simp: load_index_def split: if_splits)
qed

theorem warmup_runs_once_witness:
  "reachable (load_index initial_state) \<and> pool_warm (load_index initial_state) = thread_loader_warmup"
proof -
  have r: "reachable (load_index initial_state)"
    by (rule reachable.step [OF reachable.init, of Require]) (simp add: initial_state_def)
  have "loaded (load_index initial_state)" by (simp add: load_index_def)
  then show ?thesis using r warmup_runs_once [OF r] by simp
qed

end
