(* ===== verification/LintConfig.thy ===== *)
theory LintConfig
  imports Prelude
begin

text \<open>
  The two tool configurations of the repository, \<open>src/.eslintrc.js\<close> and
  \<open>src/.prettierrc.js\<close>: each exports an object literal. They are written as values
  of a small JSON-like datatype, with the entries of every object literal kept in
  source order, duplicates included. Reading a property of an object literal
  gives the value of its last entry with that key, as ECMAScript's evaluation of
  object literals does.
\<close>

datatype js_value =
    JStr string
  | JBool bool
  | JNum int
  | JArr "js_value list"
  | JObj "(string \<times> js_value) list"

fun obj_entries :: "js_value \<Rightarrow> (string \<times> js_value) list" where
  "obj_entries (JObj es) = es"
| "obj_entries _ = []"

text \<open>\<open>o[k]\<close> on an object literal: the last entry with key \<open>k\<close> wins.\<close>

definition obj_get :: "js_value \<Rightarrow> string \<Rightarrow> js_value option" where
  "obj_get v k = map_of (rev (obj_entries v)) k"

subsection \<open>ESLint\<close>

definition WARN :: string where
  "WARN = ''warn''"

definition OFF :: string where
  "OFF = ''off''"

definition eslint_config :: js_value where
  "eslint_config =
     JObj [(''env'', JObj [(''browser'', JBool True), (''es6'', JBool True), (''node'', JBool True)]),
           (''extends'', JArr [JStr ''eslint:recommended'', JStr ''plugin:react/recommended'',
                               JStr ''plugin:prettier/recommended'']),
           (''parser'', JStr ''babel-eslint''),
           (''plugins'', JArr [JStr ''react'', JStr ''prettier'']),
           (''settings'', JObj [(''react'', JObj [(''version'', JStr ''16.8.0'')])]),
           (''rules'', JObj [(''quotes'', JArr [JNum 2, JStr ''single'']),
                            (''prettier/prettier'', JStr WARN),
                            (''no-console'', JStr OFF),
                            (''no-debugger'', JStr OFF),
                            (''react/prop-types'', JStr OFF),
                            (''react/no-find-dom-node'', JStr OFF),
                            (''react/display-name'', JStr OFF),
                            (''no-empty-pattern'', JStr OFF)])]"

subsection \<open>Prettier\<close>

definition prettier_config :: js_value where
  "prettier_config =
     JObj [(''trailingComma'', JStr ''all''),
           (''eslintIntegration'', JBool True),
           (''stylelintIntegration'', JBool True),
           (''tabWidth'', JNum 2),
           (''semi'', JBool True),
           (''singleQuote'', JBool True),
           (''trailingComma'', JStr ''none''),
           (''bracketSpacing'', JBool True)]"

end
