(* ===== verification/Spec2Isabelle.thy ===== *)
theory Spec2Isabelle
  imports ModuleLoad LintConfig
begin

text \<open>
  \<^bold>\<open>A verification library for the webpack configuration factory.\<close>

  The repository's program is \<open>src/index.js\<close>: a function of the project path, an
  options object and an optional \<open>customConfig\<close> that returns a webpack
  configuration object. Next to it, \<open>src/.eslintrc.js\<close> and \<open>src/.prettierrc.js\<close>
  export the lint and format settings. Nothing in the program is stateful; every
  part is a pure function of its inputs. So every component is a HOL function, and
  every JavaScript exception is an \<open>Inl\<close> value of \<^typ>\<open>'a js_result\<close>.

  \<^bold>\<open>Theories and what they model.\<close>
  \<^item> \<open>Prelude\<close>: the error type \<^typ>\<open>js_error\<close> (\<open>TypeError\<close>), the result type, and
    generic lemmas on lists, sublists, prefixes, suffixes and \<open>find\<close>.
  \<^item> \<open>JsRuntime\<close>: the built-ins the code calls. \<open>String.prototype.split\<close> and
    \<open>Array.prototype.join\<close> for one character are \<open>js_split\<close>/\<open>js_join\<close>, with
    \<open>js_join_split\<close> and \<open>js_split_join\<close> as round trips. \<open>indexOf\<close> (-1 when absent) is
    \<open>js_index_of\<close>. Truthiness of a string and \<open>String(undefined)\<close> are modelled. The
    stable insertion sort \<open>js_sort\<close> models \<open>Array.prototype.sort\<close> with a comparator
    that may throw. Its lemma \<open>js_sort_key_comparator\<close> shows it equals
    \<open>sort_key\<close> when the comparator is a difference of keys.
  \<^item> \<open>JsRegex\<close>: the fragment of ECMAScript regular expressions the code writes:
    literals, classes, \<open>^\<close>, \<open>$\<close>, alternation, groups, \<open>?\<close> and the lazy star. It is a
    backtracking matcher \<open>mt\<close> that returns every match in priority order. \<open>js_exec\<close>
    takes the first match at the leftmost start, \<open>js_test\<close> tests for one, and
    \<open>js_group\<close> reads a capture. Lemmas characterise \<open>test\<close> for literal
    alternatives (sublist), \<open>^lit\<close> (prefix), and anchored literal sets through
    \<open>lits\<close> (suffix).
  \<^item> \<open>ChunkRules\<close>: the table \<open>chunkRules\<close> (index.js lines 79--160) and the
    \<open>for ... of\<close> loop of the \<open>bundle\<close> group's \<open>name\<close> function (lines 170--175) as
    \<open>chunk_rules\<close>, \<open>first_filename\<close> and \<open>classify\<close>. The contract of the
    specification (section 4.1) is \<open>classify_spec\<close>.
  \<^item> \<open>CacheGroups\<close>: the \<open>cacheGroups\<close> object (lines 161--195). This is the
    \<open>bundle\<close>, \<open>initial\<close> and \<open>dynamic\<close> groups with their \<open>name\<close> functions
    \<open>bundle_name\<close> and \<open>dynamic_name\<close>. Both use \<open>exec\<close> on \<open>module.context\<close> and
    throw when it does not match. It also holds a reference definition of the
    package name, \<open>package_name_ref\<close>, and lemmas on the leftmost-match behaviour.
  \<^item> \<open>HtmlPlugin\<close>: the \<open>chunksSortMode\<close> comparator (lines 209--222) as
    \<open>chunks_sort_mode\<close>, and the \<open>templateParameters\<close> function (lines 224--231) as
    \<open>template_parameters\<close>.
  \<^item> \<open>Config\<close>: the factory itself (lines 39--508). This is the destructuring of the
    options with defaults (\<open>destructure_options\<close>), output, mode, optimization,
    resolve, the plugin list (\<open>plugins\<close>), the ten loader rules (\<open>module_rules\<close>),
    \<open>devServer\<close> and the thread-loader warm-up list (lines 12--18).
    \<open>create_config\<close> composes them. The external \<open>webpack-merge\<close> and
    \<open>SpeedMeasureWebpackPlugin.wrap\<close> are kept as the constructors \<open>Merged\<close> and
    \<open>SpeedMeasured\<close> of the result. Rule matching (\<open>rule_applies\<close>) and file-name
    templates (\<open>render_template\<close>) are modelled from webpack's documentation.
  \<^item> \<open>ModuleLoad\<close>: how a host program uses the module.
    \<^item> The first \<open>require\<close> evaluates the top level (lines 1--18, \<open>load_index\<close>), which
      runs the thread-loader warm-up.
    \<^item> Later \<open>require\<close>s hit Node's module cache.
    \<^item> Factory calls record what \<open>create_config\<close> returns.
    \<^item> \<open>node_step\<close> is the step function on \<^typ>\<open>node_state\<close>, and the inductive
      \<open>reachable\<close> holds of the states a host program can produce.
  \<^item> \<open>LintConfig\<close>: the two exported object literals as values of
    \<^typ>\<open>js_value\<close>, with entries in source order. A property read takes the last
    duplicate key, as ECMAScript does.

  \<^bold>\<open>What the lemma groups show.\<close>
  \<^item> The classifier is total (C1) and refines the specification's contract
    (C2). Its loop equals a \<open>find\<close> over the table (C21) and returns only
    non-empty names that a rule produced (C22).
  \<^item> The package name from the \<open>bundle\<close> group's regex is the segment after the
    first \<open>node_modules\<close> directory (C3, C4). A context that ends in
    \<open>node_modules\<close> makes the name function throw (C7).
  \<^item> \<open>dynamic_name\<close> names the nested segment (C5) and throws at a package root (C6).
  \<^item> The chunk order refines a sort by key (C8), and the comparator is consistent
    (C9). A nameless chunk makes the sort throw (C10). C11 gives the prefetch
    list.
  \<^item> For the factory:
    \<^item> at most one loader rule applies to any path (C12), and exactly one to each
      handled source file (C13);
    \<^item> the factory throws exactly when the options argument is \<open>undefined\<close> or
      \<open>null\<close> (C14), although its JSDoc marks the argument as optional;
    \<^item> the production switches agree (C15);
    \<^item> the analyzer plugin follows its flag (C16);
    \<^item> the tinypng loader is conditional on a non-empty key (C17);
    \<^item> every path ending in a dot goes to the TypeScript rule (C18).
  \<^item> By rule induction over \<open>reachable\<close>: the warm-up runs exactly once, at the
    first \<open>require\<close>, before any factory call (C23).
  \<^item> Across components, this theory proves C19 and C20.
    \<^item> C19: a chunk named by the \<open>dynamic\<close> group is emitted under the output
      file name, and that file is in the prefetch list of the HTML plugin the same
      configuration installs.
    \<^item> C20: such a chunk is ordered by \<open>chunksSortMode\<close> exactly as an \<open>app\<close> chunk.

  \<^bold>\<open>Bounds and termination.\<close> No fuel is needed. Every recursion is structural
  on a list or a regex. The one exception, \<open>render_template\<close>, has a termination
  proof by the length of the template. Regex matching is total, since each lazy
  star spans at most the rest of the string.

  No property is stated as termination alone, because every function of the
  model is total by construction.

  \<^bold>\<open>Not modelled.\<close>
  \<^item> The libraries the code only calls: webpack, its loaders and plugins, and
    \<open>webpack-merge\<close> beyond keeping its arguments.
  \<^item> The workers of the thread-loader pool. The pool is the list of modules it
    has been told to load.
  \<^item> \<open>null\<close> values of single options. The options argument itself may be
    \<open>undefined\<close>, \<open>null\<close> or an object (\<^typ>\<open>options js_arg\<close>). Inside the object,
    destructuring defaults apply only to \<open>undefined\<close>, which is the \<open>None\<close> of each
    field. A \<open>null\<close> property would pass through unchanged, and its later uses are
    outside the typed model.
  \<^item> webpack's choice among the three cache groups that match the same modules
    (priorities, then chunk counts and sizes), because that choice is made by
    the library's algorithm rather than by this code.
  \<^item> The merge semantics of \<open>webpack-merge\<close>.
  \<^item> Loader and plugin options, which are kept as the literal values the source
    writes, flattened to key/value strings.
\<close>

subsection \<open>Dynamic chunks are prefetched\<close>

text \<open>
  C19: the file emitted for a chunk named by the \<open>dynamic\<close> cache group, under the
  configuration's output file name, is put in the HTML template's prefetch list,
  prefixed by the configuration's public path, once the compilation holds it.
\<close>

theorem dynamic_chunks_prefetched:
  assumes "dynamic_name ctx = Inr n"
    and "(render_template n ch h (out_filename (cfg_output (base_config p st))), a) \<in> set (assets cpl)"
    and "HtmlWebpackPlugin t fv pp \<in> set (cfg_plugins (base_config p st))"
  shows "out_publicPath (cfg_output (base_config p st)) @
           render_template n ch h (out_filename (cfg_output (base_config p st)))
         \<in> set (prefetchAssets (template_parameters pp cpl))"
proof -
  obtain g where n: "n = ''app.'' @ g @ ''.dynamic''" using dynamic_name_shape [OF assms(1)] by blast
  let ?f = "render_template n ch h (out_filename (cfg_output (base_config p st)))"
  have "?f = ''app.'' @ g @ ''.dynamic.'' @ take 8 (if isProduction st then ch else h) @ ''.js''"
    by (simp add: n base_config_def render_output_filename)
  then have "sublist ''.dynamic.'' ?f" by (metis sublist_appendI append.assoc)
  then show ?thesis
    using prefetch_member [OF assms(2)] html_plugin_public_path [OF assms(3)] by simp
qed

theorem dynamic_chunks_prefetched_witness:
  "dynamic_name ''/x/node_modules/foo/bar'' = Inr ''app.bar.dynamic'' \<and>
   (''app.bar.dynamic.0123abcd.js'', ''src'') \<in>
     set (assets \<lparr>assets = [(''main.0123abcd.js'', ''src''), (''app.bar.dynamic.0123abcd.js'', ''src'')]\<rparr>) \<and>
   HtmlWebpackPlugin ''src/index.ejs'' [] ''/'' \<in>
     set (cfg_plugins (base_config ''/app'' (projr (destructure_options (Obj empty_options))))) \<and>
   ''/app.bar.dynamic.0123abcd.js'' \<in>
     set (prefetchAssets (template_parameters ''/''
       \<lparr>assets = [(''main.0123abcd.js'', ''src''), (''app.bar.dynamic.0123abcd.js'', ''src'')]\<rparr>))"
proof -
  let ?st = "projr (destructure_options (Obj empty_options))"
  let ?comp = "\<lparr>assets = [(''main.0123abcd.js'', ''src''), (''app.bar.dynamic.0123abcd.js'', ''src'')]\<rparr>"
  have d: "dynamic_name ''/x/node_modules/foo/bar'' = Inr ''app.bar.dynamic''" by code_simp
  have f: "render_template ''app.bar.dynamic'' ''0123abcd'' ''0123abcd'' (out_filename (cfg_output (base_config ''/app'' ?st)))
      = ''app.bar.dynamic.0123abcd.js''"
    by (simp add: base_config_def destructure_options_def empty_options_def js_default_def render_output_filename)
  have pub: "out_publicPath (cfg_output (base_config ''/app'' ?st)) = ''/''"
    by (simp add: base_config_def destructure_options_def empty_options_def js_default_def)
  have a: "(render_template ''app.bar.dynamic'' ''0123abcd'' ''0123abcd'' (out_filename (cfg_output (base_config ''/app'' ?st))), ''src'')
      \<in> set (assets ?comp)"
    unfolding f by simp
  have p: "HtmlWebpackPlugin ''src/index.ejs'' [] ''/'' \<in> set (cfg_plugins (base_config ''/app'' ?st))"
    by (simp add: base_config_def plugins_def destructure_options_def empty_options_def js_default_def)
  show ?thesis
    using d a p dynamic_chunks_prefetched [OF d a p] unfolding f pub by simp
qed

subsection \<open>Dynamic chunks in the injection order\<close>

text \<open>
  C20: a chunk named by the \<open>dynamic\<close> cache group compares, under \<open>chunksSortMode\<close>,
  exactly as a chunk named \<open>app\<close>: it is injected with the application chunks,
  after \<open>polyfill\<close>, \<open>lib\<close>, \<open>antv\<close> and \<open>component\<close> and before \<open>main\<close>.
\<close>

theorem dynamic_chunks_sort_as_app:
  assumes "dynamic_name ctx = Inr n"
  shows "chunks_sort_mode \<lparr>names = n # ns\<rparr> c = chunks_sort_mode \<lparr>names = [''app'']\<rparr> c \<and>
         chunks_sort_mode c \<lparr>names = n # ns\<rparr> = chunks_sort_mode c \<lparr>names = [''app'']\<rparr>"
proof -
  obtain g where n: "n = ''app.'' @ g @ ''.dynamic''" using dynamic_name_shape [OF assms] by blast
  have p1: "chunk_prefix \<lparr>names = n # ns\<rparr> = Inr ''app''" and p2: "chunk_prefix \<lparr>names = [''app'']\<rparr> = Inr ''app''"
    by (simp_all add: chunk_prefix_Cons n)
  show ?thesis unfolding chunks_sort_mode_def p1 p2 by simp
qed

theorem dynamic_chunks_sort_as_app_witness:
  "dynamic_name ''/x/node_modules/foo/bar'' = Inr ''app.bar.dynamic'' \<and>
   chunks_sort_mode \<lparr>names = [''app.bar.dynamic'']\<rparr> \<lparr>names = [''main'']\<rparr> =
     chunks_sort_mode \<lparr>names = [''app'']\<rparr> \<lparr>names = [''main'']\<rparr> \<and>
   chunks_sort_mode \<lparr>names = [''main'']\<rparr> \<lparr>names = [''app.bar.dynamic'']\<rparr> =
     chunks_sort_mode \<lparr>names = [''main'']\<rparr> \<lparr>names = [''app'']\<rparr>"
proof -
  have d: "dynamic_name ''/x/node_modules/foo/bar'' = Inr ''app.bar.dynamic''" by code_simp
  show ?thesis using d dynamic_chunks_sort_as_app [OF d, of "[]" "\<lparr>names = [''main'']\<rparr>"] by simp
qed

end
